theory Spec2Isabelle
  imports Complex_Main
begin

section \<open>JavaScript numbers\<close>

text \<open>
  A JavaScript \<open>number\<close> is a finite value, one of the two infinities, or NaN. Finite
  values are idealised as reals: rounding, overflow to an infinity and the sign of zero
  are not modelled (a nonzero value divided by zero takes the sign of the numerator).
  The special values follow IEEE 754 as ECMAScript prescribes it: NaN is absorbing,
  \<open>0/0\<close>, \<open>\<infinity> - \<infinity>\<close>, \<open>0 * \<infinity>\<close> and \<open>\<infinity>/\<infinity>\<close> are NaN.

  A finite product or sum of doubles above about \<open>1.8e308\<close> is an infinity in the
  program and a finite real here. A statement about arguments the program does not bound
  itself therefore bounds them, by \<open>2 ^ 300\<close> or \<open>2 ^ 500\<close>, so far below the largest
  double that no operation of the code it covers overflows; within such bounds the model
  and the program differ by rounding alone.
\<close>

datatype jsnum = Fin real | PInf | NInf | NaN

instantiation jsnum :: "{uminus, plus, minus, times, inverse}"
begin

fun uminus_jsnum :: "jsnum \<Rightarrow> jsnum" where
  "uminus_jsnum (Fin a) = Fin (- a)"
| "uminus_jsnum PInf = NInf"
| "uminus_jsnum NInf = PInf"
| "uminus_jsnum NaN = NaN"

fun plus_jsnum :: "jsnum \<Rightarrow> jsnum \<Rightarrow> jsnum" where
  "plus_jsnum NaN _ = NaN"
| "plus_jsnum _ NaN = NaN"
| "plus_jsnum (Fin a) (Fin b) = Fin (a + b)"
| "plus_jsnum PInf NInf = NaN"
| "plus_jsnum NInf PInf = NaN"
| "plus_jsnum PInf _ = PInf"
| "plus_jsnum _ PInf = PInf"
| "plus_jsnum NInf _ = NInf"
| "plus_jsnum _ NInf = NInf"

definition minus_jsnum :: "jsnum \<Rightarrow> jsnum \<Rightarrow> jsnum" where
  "minus_jsnum a b = a + (- b)"

fun times_jsnum :: "jsnum \<Rightarrow> jsnum \<Rightarrow> jsnum" where
  "times_jsnum NaN _ = NaN"
| "times_jsnum _ NaN = NaN"
| "times_jsnum (Fin a) (Fin b) = Fin (a * b)"
| "times_jsnum (Fin a) PInf = (if a = 0 then NaN else if 0 < a then PInf else NInf)"
| "times_jsnum (Fin a) NInf = (if a = 0 then NaN else if 0 < a then NInf else PInf)"
| "times_jsnum PInf (Fin b) = (if b = 0 then NaN else if 0 < b then PInf else NInf)"
| "times_jsnum NInf (Fin b) = (if b = 0 then NaN else if 0 < b then NInf else PInf)"
| "times_jsnum PInf PInf = PInf"
| "times_jsnum PInf NInf = NInf"
| "times_jsnum NInf PInf = NInf"
| "times_jsnum NInf NInf = PInf"

fun divide_jsnum :: "jsnum \<Rightarrow> jsnum \<Rightarrow> jsnum" where
  "divide_jsnum NaN _ = NaN"
| "divide_jsnum _ NaN = NaN"
| "divide_jsnum (Fin a) (Fin b) =
     (if b = 0 then (if a = 0 then NaN else if 0 < a then PInf else NInf)
      else Fin (a / b))"
| "divide_jsnum (Fin a) PInf = Fin 0"
| "divide_jsnum (Fin a) NInf = Fin 0"
| "divide_jsnum PInf (Fin b) = (if 0 \<le> b then PInf else NInf)"
| "divide_jsnum NInf (Fin b) = (if 0 \<le> b then NInf else PInf)"
| "divide_jsnum PInf PInf = NaN"
| "divide_jsnum PInf NInf = NaN"
| "divide_jsnum NInf PInf = NaN"
| "divide_jsnum NInf NInf = NaN"

definition inverse_jsnum :: "jsnum \<Rightarrow> jsnum" where
  "inverse_jsnum a = divide (Fin 1) a"

instance ..

end

text \<open>
  The exact result of an operation on doubles is rounded to a finite double when its
  magnitude is below \<open>2 ^ 1024 - 2 ^ 970\<close>, and to an infinity otherwise.
\<close>

definition double_range :: "real \<Rightarrow> bool" where
  "double_range r = (\<bar>r\<bar> < 2 ^ 1024 - 2 ^ 970)"

text \<open>The \<open>Math\<close> functions the program calls, on the same idealisation.\<close>

fun Math_sin :: "jsnum \<Rightarrow> jsnum" where
  "Math_sin (Fin a) = Fin (sin a)"
| "Math_sin _ = NaN"

fun Math_cos :: "jsnum \<Rightarrow> jsnum" where
  "Math_cos (Fin a) = Fin (cos a)"
| "Math_cos _ = NaN"

fun Math_acos :: "jsnum \<Rightarrow> jsnum" where
  "Math_acos (Fin a) = (if - 1 \<le> a \<and> a \<le> 1 then Fin (arccos a) else NaN)"
| "Math_acos _ = NaN"

fun Math_cbrt :: "jsnum \<Rightarrow> jsnum" where
  "Math_cbrt (Fin a) = Fin (root 3 a)"
| "Math_cbrt PInf = PInf"
| "Math_cbrt NInf = NInf"
| "Math_cbrt NaN = NaN"

text \<open>
  \<open>Math.pow(base, e)\<close> for a finite exponent \<open>e\<close> (the program's only exponent is the
  literal 1.2): a negative base with a non-integral exponent is NaN.
\<close>

fun Math_pow :: "jsnum \<Rightarrow> real \<Rightarrow> jsnum" where
  "Math_pow b e =
     (if e = 0 then Fin 1
      else case b of
        NaN \<Rightarrow> NaN
      | PInf \<Rightarrow> (if 0 < e then PInf else Fin 0)
      | NInf \<Rightarrow> (if 0 < e then (if e \<in> \<int> \<and> odd \<lfloor>e\<rfloor> then NInf else PInf) else Fin 0)
      | Fin a \<Rightarrow>
          (if a = 0 then (if 0 < e then Fin 0 else PInf)
           else if a < 0 then (if e \<in> \<int> then Fin (a powi \<lfloor>e\<rfloor>) else NaN)
           else Fin (a powr e)))"

definition Math_PI :: jsnum where
  "Math_PI = Fin pi"

section \<open>Vectors and interpolation (three.js)\<close>

text \<open>\<open>THREE.Vector3\<close>: three mutable number fields \<open>x\<close>, \<open>y\<close>, \<open>z\<close>.\<close>

record 'a Vector3 =
  vx :: 'a
  vy :: 'a
  vz :: 'a

text \<open>\<open>THREE.MathUtils.lerp(x, y, t)\<close> is \<open>(1 - t) * x + t * y\<close>.\<close>

definition MathUtils_lerp :: "jsnum \<Rightarrow> jsnum \<Rightarrow> jsnum \<Rightarrow> jsnum" where
  "MathUtils_lerp x y t = (Fin 1 - t) * x + t * y"

text \<open>
  Every operation of \<open>MathUtils.lerp(x, y, t)\<close> on finite arguments has a result within
  the range of the doubles.
\<close>

definition MathUtils_lerp_in_range :: "real \<Rightarrow> real \<Rightarrow> real \<Rightarrow> bool" where
  "MathUtils_lerp_in_range x y t =
     (double_range (1 - t) \<and> double_range ((1 - t) * x) \<and> double_range (t * y) \<and>
      double_range ((1 - t) * x + t * y))"

text \<open>
  \<open>Vector3.lerp(v, alpha)\<close> updates the receiver in place, component by component:
  \<open>this.x += (v.x - this.x) * alpha\<close>.
\<close>

definition Vector3_lerp :: "jsnum Vector3 \<Rightarrow> jsnum Vector3 \<Rightarrow> jsnum \<Rightarrow> jsnum Vector3" where
  "Vector3_lerp this v alpha =
     \<lparr> vx = vx this + (vx v - vx this) * alpha,
       vy = vy this + (vy v - vy this) * alpha,
       vz = vz this + (vz v - vz this) * alpha \<rparr>"

section \<open>The foliage animation driver\<close>

text \<open>
  The state the frame callback of \<open>FoliageSystem\<close> reads and writes: whether the mesh is
  mounted (\<open>meshRef.current\<close>), the smoothed progress (\<open>progress.current\<close>), the
  values of the shader uniforms \<open>uTime\<close> and \<open>uProgress\<close>, and the mesh rotation.
\<close>

record FoliageState =
  meshRef_current :: bool
  progress :: jsnum
  uniforms_uTime :: jsnum
  uniforms_uProgress :: jsnum
  rotation_y :: jsnum

definition FoliageSystem_useFrame :: "bool \<Rightarrow> jsnum \<Rightarrow> jsnum \<Rightarrow> FoliageState \<Rightarrow> FoliageState" where
  "FoliageSystem_useFrame isTreeForm elapsedTime delta st =
     (if meshRef_current st then
        let target = (if isTreeForm then Fin 1 else Fin 0);
            p = MathUtils_lerp (progress st) target (delta * Fin 1.5)
        in st \<lparr> progress := p, uniforms_uTime := elapsedTime, uniforms_uProgress := p,
                rotation_y := elapsedTime * Fin 0.05 * p \<rparr>
      else st)"

text \<open>A run of frames; each frame carries the clock's elapsed time and its delta.\<close>

fun FoliageSystem_frames :: "bool \<Rightarrow> (jsnum \<times> jsnum) list \<Rightarrow> FoliageState \<Rightarrow> FoliageState" where
  "FoliageSystem_frames isTreeForm [] st = st"
| "FoliageSystem_frames isTreeForm ((elapsedTime, delta) # fs) st =
     FoliageSystem_frames isTreeForm fs (FoliageSystem_useFrame isTreeForm elapsedTime delta st)"

text \<open>
  The update rule of the specification's Animation Driver, in its own words:
  \<open>currentProgress += (targetProgress - currentProgress) * min(1, rate*dt)\<close>.
\<close>

definition spec_tick :: "real \<Rightarrow> real \<Rightarrow> real \<Rightarrow> real \<Rightarrow> real" where
  "spec_tick rate currentProgress targetProgress dt =
     currentProgress + (targetProgress - currentProgress) * min 1 (rate * dt)"

section \<open>The foliage vertex shader (GLSL)\<close>

text \<open>
  GLSL floats are idealised as reals. The built-ins are those of the GLSL specification:
  \<open>clamp(x, a, b) = min(max(x, a), b)\<close>, \<open>smoothstep\<close> is the clamped cubic Hermite
  polynomial, \<open>mix(x, y, a) = x * (1 - a) + y * a\<close>. \<open>pow\<close> is the real power \<open>powr\<close>
  (GLSL leaves \<open>pow\<close> undefined for a negative base). \<open>normalize\<close> of the zero vector
  divides by zero; the model returns \<open>None\<close> there.
\<close>

type_synonym vec3 = "real Vector3"

definition clamp :: "real \<Rightarrow> real \<Rightarrow> real \<Rightarrow> real" where
  "clamp x minVal maxVal = min (max x minVal) maxVal"

definition smoothstep :: "real \<Rightarrow> real \<Rightarrow> real \<Rightarrow> real" where
  "smoothstep edge0 edge1 x =
     (let t = clamp ((x - edge0) / (edge1 - edge0)) 0 1 in t * t * (3 - 2 * t))"

definition mix :: "vec3 \<Rightarrow> vec3 \<Rightarrow> real \<Rightarrow> vec3" where
  "mix a b t =
     \<lparr> vx = vx a * (1 - t) + vx b * t,
       vy = vy a * (1 - t) + vy b * t,
       vz = vz a * (1 - t) + vz b * t \<rparr>"

definition length_vec3 :: "vec3 \<Rightarrow> real" where
  "length_vec3 v = sqrt (vx v * vx v + vy v * vy v + vz v * vz v)"

definition normalize_vec3 :: "vec3 \<Rightarrow> vec3 option" where
  "normalize_vec3 v =
     (if length_vec3 v = 0 then None
      else Some \<lparr> vx = vx v / length_vec3 v, vy = vy v / length_vec3 v,
                  vz = vz v / length_vec3 v \<rparr>)"

definition easeOutCubic :: "real \<Rightarrow> real" where
  "easeOutCubic x = 1.0 - (1.0 - x) powr 3.0"

record ShaderUniforms =
  uTime :: real
  uProgress :: real
  uPixelRatio :: real

record ShaderAttributes =
  aScatterPos :: vec3
  aTreePos :: vec3
  aRandom :: real
  aSize :: real
  aColorType :: real

text \<open>The position part of \<open>main\<close>: the height-dependent delay and the local progress.\<close>

definition delay :: "ShaderAttributes \<Rightarrow> real" where
  "delay A = vy (aTreePos A) * 0.05 + 0.5"

definition localProgress :: "ShaderUniforms \<Rightarrow> ShaderAttributes \<Rightarrow> real" where
  "localProgress U A =
     (let t = uProgress U
      in smoothstep 0.0 1.0 ((t * (1.0 + delay A)) - (delay A * (1.0 - t))))"

text \<open>\<open>finalPos\<close> as first assigned: the blend of the scatter and the tree position.\<close>

definition blendPos :: "ShaderUniforms \<Rightarrow> ShaderAttributes \<Rightarrow> vec3" where
  "blendPos U A = mix (aScatterPos A) (aTreePos A) (easeOutCubic (localProgress U A))"

text \<open>\<open>finalPos\<close> after the breathing effect, as it enters the model-view transform.\<close>

definition finalPos :: "ShaderUniforms \<Rightarrow> ShaderAttributes \<Rightarrow> vec3 option" where
  "finalPos U A =
     (let p = blendPos U A;
          breath = sin (uTime U * 2.0 + aRandom A * 10.0) * 0.05
      in if uProgress U > 0.8 then
           (case normalize_vec3 p of
              None \<Rightarrow> None
            | Some n \<Rightarrow> Some \<lparr> vx = vx p + vx n * breath, vy = vy p + vy n * breath,
                               vz = vz p + vz n * breath \<rparr>)
         else Some p)"

section \<open>Point generators\<close>

text \<open>
  \<open>Math.random()\<close> is the only source of nondeterminism; each call's result is an
  argument of the model, in the order of the calls. It returns a value in \<open>[0, 1)\<close>.
\<close>

definition randomInSphere :: "jsnum \<Rightarrow> real \<Rightarrow> real \<Rightarrow> real \<Rightarrow> jsnum Vector3" where
  "randomInSphere radius rand1 rand2 rand3 =
     (let u = Fin rand1;
          v = Fin rand2;
          theta = Fin 2 * Math_PI * u;
          phi = Math_acos (Fin 2 * v - Fin 1);
          r = Math_cbrt (Fin rand3) * radius;
          sinPhi = Math_sin phi
      in \<lparr> vx = r * sinPhi * Math_cos theta,
           vy = r * sinPhi * Math_sin theta,
           vz = r * Math_cos phi \<rparr>)"

definition randomOnTree :: "jsnum \<Rightarrow> jsnum \<Rightarrow> jsnum \<Rightarrow> jsnum \<Rightarrow> real \<Rightarrow> real \<Rightarrow> jsnum Vector3" where
  "randomOnTree height radiusBase yMinRatio yMaxRatio rand1 rand2 =
     (let minH = height * yMinRatio;
          maxH = height * yMaxRatio;
          range = maxH - minH;
          y = Fin rand1 * range + minH;
          percentage = Fin 1 - (y / height);
          r = radiusBase * Math_pow percentage 1.2;
          theta = Fin rand2 * Math_PI * Fin 2;
          layerNoise = Math_sin (y * Fin 3.0) * Fin 0.15
      in \<lparr> vx = (r + layerNoise) * Math_cos theta,
           vy = y - height / Fin 2,
           vz = (r + layerNoise) * Math_sin theta \<rparr>)"

text \<open>
  Every operation of \<open>randomOnTree\<close> on finite arguments, in the order of the source, has
  a result within the range of the doubles.
\<close>

definition randomOnTree_in_range :: "real \<Rightarrow> real \<Rightarrow> real \<Rightarrow> real \<Rightarrow> real \<Rightarrow> real \<Rightarrow> bool" where
  "randomOnTree_in_range height radiusBase yMinRatio yMaxRatio rand1 rand2 =
     (let minH = height * yMinRatio;
          maxH = height * yMaxRatio;
          range = maxH - minH;
          y = rand1 * range + minH;
          percentage = 1 - (y / height);
          r = radiusBase * percentage powr 1.2;
          theta = rand2 * pi * 2;
          layerNoise = sin (y * 3.0) * 0.15
      in double_range minH \<and> double_range maxH \<and> double_range range \<and>
         double_range (rand1 * range) \<and> double_range y \<and>
         double_range (y / height) \<and> double_range percentage \<and>
         double_range (percentage powr 1.2) \<and> double_range r \<and>
         double_range (rand2 * pi) \<and> double_range theta \<and>
         double_range (y * 3.0) \<and> double_range layerNoise \<and>
         double_range (r + layerNoise) \<and>
         double_range ((r + layerNoise) * cos theta) \<and>
         double_range (height / 2) \<and> double_range (y - height / 2) \<and>
         double_range ((r + layerNoise) * sin theta))"

fun isFinite :: "jsnum \<Rightarrow> bool" where
  "isFinite (Fin a) = True"
| "isFinite _ = False"

definition finite_vec :: "jsnum Vector3 \<Rightarrow> bool" where
  "finite_vec v = (isFinite (vx v) \<and> isFinite (vy v) \<and> isFinite (vz v))"

definition fin_vec :: "real Vector3 \<Rightarrow> jsnum Vector3" where
  "fin_vec v = \<lparr> vx = Fin (vx v), vy = Fin (vy v), vz = Fin (vz v) \<rparr>"

section \<open>Configuration\<close>

definition TREE_HEIGHT :: jsnum where
  "TREE_HEIGHT = Fin 12"

definition TREE_RADIUS :: jsnum where
  "TREE_RADIUS = Fin 4.5"

definition PARTICLE_COUNT :: int where
  "PARTICLE_COUNT = 18000"

definition BOX_COUNT :: nat where
  "BOX_COUNT = 1200"

definition BLUE_SPHERE_COUNT :: nat where
  "BLUE_SPHERE_COUNT = 250"

datatype Color = C_EMERALD | C_DEEP_GREEN | C_RED | C_WHITE | C_GOLD | C_BLUE | C_ICE_BLUE

section \<open>The foliage particle pool\<close>

text \<open>
  \<open>new Float32Array(n)\<close> throws a \<open>RangeError\<close> for a negative length, for a length
  above \<open>2 ^ 53 - 1\<close> (the bound of \<open>ToIndex\<close>) and when the engine cannot allocate the
  buffer; otherwise the array is zero-filled. Whether the engine can allocate an array of
  \<open>n\<close> elements at that moment is an argument of the model. A write outside the bounds of
  the array is ignored, as \<open>list_update\<close> does.

  A value stored in a \<open>Float32Array\<close> is converted to single precision: a finite value
  of magnitude \<open>2 ^ 128 - 2 ^ 103\<close> or more becomes an infinity; the rounding of the
  others is not modelled.
\<close>

datatype js_error = RangeError

definition new_Float32Array :: "(nat \<Rightarrow> bool) \<Rightarrow> int \<Rightarrow> js_error + jsnum list" where
  "new_Float32Array can_allocate n =
     (if n < 0 \<or> 2 ^ 53 - 1 < n then Inl RangeError
      else if can_allocate (nat n) then Inr (replicate (nat n) (Fin 0))
      else Inl RangeError)"

fun to_float32 :: "jsnum \<Rightarrow> jsnum" where
  "to_float32 (Fin a) =
     (if 2 ^ 128 - 2 ^ 103 \<le> a then PInf
      else if a \<le> - (2 ^ 128 - 2 ^ 103) then NInf
      else Fin a)"
| "to_float32 PInf = PInf"
| "to_float32 NInf = NInf"
| "to_float32 NaN = NaN"

record ParticlePool =
  pool_positions :: "jsnum list"
  pool_scatterPos :: "jsnum list"
  pool_treePos :: "jsnum list"
  pool_randoms :: "jsnum list"
  pool_sizes :: "jsnum list"
  pool_colorTypes :: "jsnum list"

text \<open>
  One pass of the generation loop for particle \<open>i\<close>. The pass makes eight calls of
  \<open>Math.random()\<close>; \<open>rnd k\<close> is the result of the \<open>k\<close>-th call since the loop started.
\<close>

definition pool_step :: "jsnum \<Rightarrow> jsnum \<Rightarrow> (nat \<Rightarrow> real) \<Rightarrow> nat \<Rightarrow> ParticlePool \<Rightarrow> ParticlePool" where
  "pool_step height radiusBase rnd i pool =
     (let treeP = randomOnTree height radiusBase (Fin 0) (Fin 1) (rnd (8 * i)) (rnd (8 * i + 1));
          scatterP = randomInSphere (Fin 15) (rnd (8 * i + 2)) (rnd (8 * i + 3)) (rnd (8 * i + 4));
          rand = rnd (8 * i + 7)
      in pool
          \<lparr> pool_treePos := (pool_treePos pool)
               [i * 3 := to_float32 (vx treeP), i * 3 + 1 := to_float32 (vy treeP),
                i * 3 + 2 := to_float32 (vz treeP)],
            pool_scatterPos := (pool_scatterPos pool)
               [i * 3 := to_float32 (vx scatterP), i * 3 + 1 := to_float32 (vy scatterP),
                i * 3 + 2 := to_float32 (vz scatterP)],
            pool_positions := (pool_positions pool)
               [i * 3 := to_float32 (vx scatterP), i * 3 + 1 := to_float32 (vy scatterP),
                i * 3 + 2 := to_float32 (vz scatterP)],
            pool_randoms := (pool_randoms pool) [i := to_float32 (Fin (rnd (8 * i + 5)))],
            pool_sizes := (pool_sizes pool)
               [i := to_float32 (Fin (rnd (8 * i + 6)) * Fin 0.5 + Fin 0.5)],
            pool_colorTypes := (pool_colorTypes pool)
               [i := to_float32 (if rand > 0.95 then Fin 3.0
                                 else if rand > 0.80 then Fin 2.0
                                 else if rand > 0.50 then Fin 1.0
                                 else Fin 0.0)] \<rparr>)"

text \<open>
  The body of the \<open>useMemo\<close> callback of \<open>FoliageSystem\<close>, with the three constants it
  reads (\<open>PARTICLE_COUNT\<close>, \<open>TREE_HEIGHT\<close>, \<open>TREE_RADIUS\<close>) as parameters. It allocates
  six arrays; \<open>can_allocate k n\<close> tells whether the engine can allocate the \<open>k\<close>-th of
  them, of \<open>n\<close> elements, when the callback asks for it.
\<close>

definition generate_pool ::
  "(nat \<Rightarrow> nat \<Rightarrow> bool) \<Rightarrow> int \<Rightarrow> jsnum \<Rightarrow> jsnum \<Rightarrow> (nat \<Rightarrow> real) \<Rightarrow> js_error + ParticlePool" where
  "generate_pool can_allocate count height radiusBase rnd =
     (case new_Float32Array (can_allocate 0) (count * 3) of Inl e \<Rightarrow> Inl e | Inr p \<Rightarrow>
      case new_Float32Array (can_allocate 1) (count * 3) of Inl e \<Rightarrow> Inl e | Inr sPos \<Rightarrow>
      case new_Float32Array (can_allocate 2) (count * 3) of Inl e \<Rightarrow> Inl e | Inr tPos \<Rightarrow>
      case new_Float32Array (can_allocate 3) count of Inl e \<Rightarrow> Inl e | Inr r \<Rightarrow>
      case new_Float32Array (can_allocate 4) count of Inl e \<Rightarrow> Inl e | Inr s \<Rightarrow>
      case new_Float32Array (can_allocate 5) count of Inl e \<Rightarrow> Inl e | Inr cType \<Rightarrow>
        Inr (fold (pool_step height radiusBase rnd) [0 ..< nat count]
               \<lparr> pool_positions = p, pool_scatterPos = sPos, pool_treePos = tPos,
                 pool_randoms = r, pool_sizes = s, pool_colorTypes = cType \<rparr>))"

definition FoliageSystem_useMemo ::
  "(nat \<Rightarrow> nat \<Rightarrow> bool) \<Rightarrow> (nat \<Rightarrow> real) \<Rightarrow> js_error + ParticlePool" where
  "FoliageSystem_useMemo can_allocate rnd =
     generate_pool can_allocate PARTICLE_COUNT TREE_HEIGHT TREE_RADIUS rnd"

text \<open>
  All six allocations of the callback succeed: the count is not negative, the greatest
  length \<open>count * 3\<close> is within the bound of \<open>ToIndex\<close>, and the engine can allocate each
  array.
\<close>

definition pool_allocates :: "(nat \<Rightarrow> nat \<Rightarrow> bool) \<Rightarrow> int \<Rightarrow> bool" where
  "pool_allocates can_allocate count =
     (0 \<le> count \<and> count * 3 \<le> 2 ^ 53 - 1 \<and>
      can_allocate 0 (nat (count * 3)) \<and> can_allocate 1 (nat (count * 3)) \<and>
      can_allocate 2 (nat (count * 3)) \<and>
      can_allocate 3 (nat count) \<and> can_allocate 4 (nat count) \<and> can_allocate 5 (nat count))"

section \<open>Ornaments\<close>

definition Math_sqrt :: "jsnum \<Rightarrow> jsnum" where
  "Math_sqrt a = (case a of Fin r \<Rightarrow> (if r < 0 then NaN else Fin (sqrt r))
                  | PInf \<Rightarrow> PInf | NInf \<Rightarrow> NaN | NaN \<Rightarrow> NaN)"

definition Vector3_length :: "jsnum Vector3 \<Rightarrow> jsnum" where
  "Vector3_length v = Math_sqrt (vx v * vx v + vy v * vy v + vz v * vz v)"

text \<open>
  \<open>Vector3.distanceTo(v)\<close> is the square root of \<open>dx * dx + dy * dy + dz * dz\<close> with
  \<open>dx = this.x - v.x\<close>, and so on.
\<close>

definition Vector3_distanceTo :: "jsnum Vector3 \<Rightarrow> jsnum Vector3 \<Rightarrow> jsnum" where
  "Vector3_distanceTo this v =
     (let dx = vx this - vx v; dy = vy this - vy v; dz = vz this - vz v
      in Math_sqrt (dx * dx + dy * dy + dz * dz))"

text \<open>
  \<open>Vector3.normalize()\<close> is \<open>this.divideScalar(this.length() || 1)\<close>, and
  \<open>divideScalar(s)\<close> multiplies by \<open>1 / s\<close>; \<open>||\<close> takes its right operand when the
  left one is zero or NaN.
\<close>

definition Vector3_normalize :: "jsnum Vector3 \<Rightarrow> jsnum Vector3" where
  "Vector3_normalize v =
     (let l = Vector3_length v;
          s = (if l = Fin 0 \<or> l = NaN then Fin 1 else l);
          scalar = Fin 1 / s
      in \<lparr> vx = vx v * scalar, vy = vy v * scalar, vz = vz v * scalar \<rparr>)"

record Ornament =
  treePos :: "jsnum Vector3"
  scatterPos :: "jsnum Vector3"
  currentPos :: "jsnum Vector3"
  scale :: jsnum
  speed :: jsnum
  phase :: jsnum
  color :: Color
  rotationAxis :: "jsnum Vector3"

text \<open>
  One pass of the loop that creates the boxes, and one of the loop that creates the blue
  spheres. Each makes twelve calls of \<open>Math.random()\<close>; \<open>rnd k\<close> is the result of the
  \<open>k\<close>-th call of the pass.
\<close>

definition make_box :: "(nat \<Rightarrow> real) \<Rightarrow> Ornament" where
  "make_box rnd =
     (let treeP = randomOnTree (TREE_HEIGHT - Fin 0.5) (TREE_RADIUS - Fin 0.8) (Fin 0) (Fin 1)
                    (rnd 0) (rnd 1);
          scatterP = randomInSphere (Fin 12) (rnd 2) (rnd 3) (rnd 4);
          scale = Fin (rnd 5) * Fin 0.08 + Fin 0.2;
          r = rnd 6;
          color = (if r < 0.20 then C_GOLD else if r < 0.60 then C_RED else C_WHITE)
      in \<lparr> treePos = treeP,
           scatterPos = scatterP,
           currentPos = scatterP,
           scale = scale,
           speed = Fin (rnd 7) * Fin 0.05 + Fin 0.02,
           phase = Fin (rnd 8) * Math_PI * Fin 2,
           color = color,
           rotationAxis =
             Vector3_normalize \<lparr> vx = Fin (rnd 9), vy = Fin (rnd 10), vz = Fin (rnd 11) \<rparr> \<rparr>)"

definition make_blueSphere :: "(nat \<Rightarrow> real) \<Rightarrow> Ornament" where
  "make_blueSphere rnd =
     (let treeP = randomOnTree TREE_HEIGHT (TREE_RADIUS - Fin 0.5) (Fin 0.0) (Fin 0.4)
                    (rnd 0) (rnd 1);
          scatterP = randomInSphere (Fin 12) (rnd 2) (rnd 3) (rnd 4);
          scale = Fin (rnd 5) * Fin 0.08 + Fin 0.12
      in \<lparr> treePos = treeP,
           scatterPos = scatterP,
           currentPos = scatterP,
           scale = scale,
           speed = Fin (rnd 6) * Fin 0.05 + Fin 0.02,
           phase = Fin (rnd 7) * Math_PI * Fin 2,
           color = (if rnd 8 > 0.6 then C_BLUE else C_ICE_BLUE),
           rotationAxis =
             Vector3_normalize \<lparr> vx = Fin (rnd 9), vy = Fin (rnd 10), vz = Fin (rnd 11) \<rparr> \<rparr>)"

definition boxes :: "(nat \<Rightarrow> real) \<Rightarrow> Ornament list" where
  "boxes rnd = map (\<lambda>i. make_box (\<lambda>k. rnd (12 * i + k))) [0 ..< BOX_COUNT]"

definition blueSpheres :: "(nat \<Rightarrow> real) \<Rightarrow> Ornament list" where
  "blueSpheres rnd = map (\<lambda>i. make_blueSphere (\<lambda>k. rnd (12 * i + k))) [0 ..< BLUE_SPHERE_COUNT]"

text \<open>
  What a frame does to one ornament: \<open>o.currentPos.lerp(target, o.speed)\<close>. The same
  statement updates the boxes and the blue spheres. The position written to the instance
  matrix is the current position with \<open>floatY\<close> added to its \<open>y\<close>.
\<close>

definition ornament_update :: "bool \<Rightarrow> Ornament \<Rightarrow> Ornament" where
  "ornament_update isTreeForm ob =
     (let target = (if isTreeForm then treePos ob else scatterPos ob)
      in ob \<lparr> currentPos := Vector3_lerp (currentPos ob) target (speed ob) \<rparr>)"

definition dummy_position :: "bool \<Rightarrow> jsnum \<Rightarrow> Ornament \<Rightarrow> jsnum Vector3" where
  "dummy_position isTreeForm t ob =
     (let floatY = (if isTreeForm then Fin 0 else Math_sin (t + phase ob) * Fin 0.02)
      in (currentPos ob) \<lparr> vy := vy (currentPos ob) + floatY \<rparr>)"

definition OrnamentSystem_useFrame ::
  "bool \<Rightarrow> Ornament list \<times> Ornament list \<Rightarrow> Ornament list \<times> Ornament list" where
  "OrnamentSystem_useFrame isTreeForm obs =
     (map (ornament_update isTreeForm) (fst obs), map (ornament_update isTreeForm) (snd obs))"

text \<open>One ornament over a run of frames, each with the value of \<open>isTreeForm\<close> it sees.\<close>

fun ornament_frames :: "bool list \<Rightarrow> Ornament \<Rightarrow> Ornament" where
  "ornament_frames [] ob = ob"
| "ornament_frames (isTreeForm # fs) ob = ornament_frames fs (ornament_update isTreeForm ob)"

text \<open>
  What holds of every ornament from its creation on: its three positions are finite and
  its speed is a finite number in \<open>[0.02, 0.07)\<close>.
\<close>

fun speed_ok :: "jsnum \<Rightarrow> bool" where
  "speed_ok (Fin s) = (0.02 \<le> s \<and> s < 0.07)"
| "speed_ok _ = False"

definition ornament_inv :: "Ornament \<Rightarrow> bool" where
  "ornament_inv ob =
     (finite_vec (treePos ob) \<and> finite_vec (scatterPos ob) \<and> finite_vec (currentPos ob) \<and>
      speed_ok (speed ob))"

section \<open>The animation driver: one tick and a run of ticks\<close>

lemma useFrame_progress:
  assumes "meshRef_current st" and "progress st = Fin p"
  shows "progress (FoliageSystem_useFrame isTreeForm e (Fin dt) st) =
     Fin (p + ((if isTreeForm then 1 else 0) - p) * (1.5 * dt))"
  using assms
  by (auto simp add: FoliageSystem_useFrame_def MathUtils_lerp_def minus_jsnum_def Let_def
        field_simps)

lemma useFrame_mesh:
  "meshRef_current (FoliageSystem_useFrame b e d st) = meshRef_current st"
  by (simp add: FoliageSystem_useFrame_def Let_def)

lemma useFrame_uProgress:
  "meshRef_current st \<Longrightarrow>
   uniforms_uProgress (FoliageSystem_useFrame b e d st) = progress (FoliageSystem_useFrame b e d st)"
  by (simp add: FoliageSystem_useFrame_def Let_def)

lemma frames_progress:
  assumes "meshRef_current st" and "progress st = Fin p" and "\<forall>f \<in> set fs. snd f = Fin dt"
  shows "progress (FoliageSystem_frames True fs st) =
     Fin (1 - (1 - p) * (1 - 1.5 * dt) ^ length fs)"
  using assms
proof (induction fs arbitrary: st p)
  case Nil
  then show ?case by simp
next
  case (Cons f fs)
  obtain e d where f: "f = (e, d)" by (cases f)
  with Cons.prems have d: "d = Fin dt" by simp
  let ?st = "FoliageSystem_useFrame True e (Fin dt) st"
  have 1: "progress ?st = Fin (p + (1 - p) * (1.5 * dt))"
    using useFrame_progress[OF Cons.prems(1,2), of True e dt] by simp
  have 2: "meshRef_current ?st" using Cons.prems(1) by (simp add: useFrame_mesh)
  have "progress (FoliageSystem_frames True fs ?st) =
      Fin (1 - (1 - (p + (1 - p) * (1.5 * dt))) * (1 - 1.5 * dt) ^ length fs)"
    using Cons.IH[OF 2 1] Cons.prems(3) by simp
  then show ?case by (simp add: f d algebra_simps)
qed

lemma double_rangeI:
  assumes "\<bar>r\<bar> \<le> 2 ^ k" and "k \<le> 1023"
  shows "double_range r"
proof -
  have "(2::real) ^ k \<le> 2 ^ 1023" using assms(2) by (intro power_increasing) simp_all
  also have "\<dots> < 2 ^ 1024 - 2 ^ 970" by simp
  finally show ?thesis using assms(1) by (simp add: double_range_def)
qed

lemma abs_mult_pow:
  fixes a b :: real
  assumes "\<bar>a\<bar> \<le> 2 ^ m" and "\<bar>b\<bar> \<le> 2 ^ n"
  shows "\<bar>a * b\<bar> \<le> 2 ^ (m + n)"
  unfolding abs_mult power_add using assms by (intro mult_mono) simp_all

lemma abs_add_pow:
  fixes a b :: real
  assumes "\<bar>a\<bar> \<le> 2 ^ m" and "\<bar>b\<bar> \<le> 2 ^ m"
  shows "\<bar>a + b\<bar> \<le> 2 ^ Suc m" and "\<bar>a - b\<bar> \<le> 2 ^ Suc m"
  using assms by (simp_all add: abs_le_iff)

lemma pow_mono2:
  fixes a :: real
  assumes "\<bar>a\<bar> \<le> 2 ^ m" and "m \<le> n"
  shows "\<bar>a\<bar> \<le> 2 ^ n"
proof -
  have "(2::real) ^ m \<le> 2 ^ n" using assms(2) by (intro power_increasing) simp_all
  with assms(1) show ?thesis by (rule order_trans)
qed

lemma powr_1_2_bound:
  fixes x :: real
  assumes "0 \<le> x" and "x \<le> 2 ^ m"
  shows "\<bar>x powr 1.2\<bar> \<le> 2 ^ (m + m)"
proof (cases "x \<le> 1")
  case True
  with assms(1) have "x powr 1.2 \<le> 1" by (intro powr_le1) simp_all
  also have "(1::real) \<le> 2 ^ (m + m)" by (rule one_le_power) simp
  finally show ?thesis by simp
next
  case False
  then have x1: "1 \<le> x" by simp
  have "x powr 1.2 \<le> x powr 2" using x1 by (intro powr_mono) simp_all
  also have "\<dots> = x * x" using assms(1) by (simp add: power2_eq_square)
  also have "\<dots> \<le> 2 ^ m * 2 ^ m" using assms by (intro mult_mono) simp_all
  finally show ?thesis by (simp add: power_add)
qed

lemma useFrame_in_range:
  fixes p dt target :: real
  assumes p: "\<bar>p\<bar> \<le> 2 ^ 500" and dt: "\<bar>dt\<bar> \<le> 2 ^ 500" and tg: "target = 0 \<or> target = 1"
  shows "double_range (dt * 1.5) \<and> MathUtils_lerp_in_range p target (dt * 1.5)"
proof -
  have c: "\<bar>1.5 :: real\<bar> \<le> 2 ^ 1" by simp
  have one: "\<bar>1 :: real\<bar> \<le> 2 ^ 501" using one_le_power[of "2::real" 501] by simp
  have tgb: "\<bar>target\<bar> \<le> 2 ^ 0" using tg by auto
  have t: "\<bar>dt * 1.5\<bar> \<le> 2 ^ 501" using abs_mult_pow[OF dt c] by simp
  have a: "\<bar>1 - dt * 1.5\<bar> \<le> 2 ^ 502" using abs_add_pow(2)[OF one t] by simp
  have b: "\<bar>(1 - dt * 1.5) * p\<bar> \<le> 2 ^ 1002" using abs_mult_pow[OF a p] by simp
  have d: "\<bar>dt * 1.5 * target\<bar> \<le> 2 ^ 1002"
    using pow_mono2[OF abs_mult_pow[OF t tgb], of 1002] by simp
  have e: "\<bar>(1 - dt * 1.5) * p + dt * 1.5 * target\<bar> \<le> 2 ^ 1003"
    using abs_add_pow(1)[OF b d] by simp
  show ?thesis
    unfolding MathUtils_lerp_in_range_def
    using double_rangeI[OF t] double_rangeI[OF a] double_rangeI[OF b] double_rangeI[OF d]
      double_rangeI[OF e]
    by simp
qed

text \<open>
  Claim C1, as the code has it. While the mesh is mounted, a tick with elapsed time \<open>dt\<close>
  replaces the progress \<open>p\<close> by \<open>p + (target - p) * (1.5 * dt)\<close>, for \<open>p\<close> and \<open>dt\<close> of
  magnitude at most \<open>2 ^ 500\<close>, where every operation of the tick stays within the range
  of the doubles: the factor \<open>1.5 * dt\<close> is applied to the gap as it is, with no cap at 1.
  The result is that of the specification's capped rule if and only if \<open>1.5 * dt \<le> 1\<close> or
  the progress is at the target already. The uniform \<open>uProgress\<close> receives the new
  progress.
\<close>

theorem tick_uncapped:
  assumes "meshRef_current st" and "progress st = Fin p"
    and "\<bar>p\<bar> \<le> 2 ^ 500" and "\<bar>dt\<bar> \<le> 2 ^ 500"
  shows "double_range (dt * 1.5)
       \<and> MathUtils_lerp_in_range p (if isTreeForm then 1 else 0) (dt * 1.5)
       \<and> progress (FoliageSystem_useFrame isTreeForm e (Fin dt) st)
           = Fin (p + ((if isTreeForm then 1 else 0) - p) * (1.5 * dt))
       \<and> (progress (FoliageSystem_useFrame isTreeForm e (Fin dt) st)
              = Fin (spec_tick 1.5 p (if isTreeForm then 1 else 0) dt)
            \<longleftrightarrow> 1.5 * dt \<le> 1 \<or> p = (if isTreeForm then 1 else 0))
       \<and> uniforms_uProgress (FoliageSystem_useFrame isTreeForm e (Fin dt) st)
           = progress (FoliageSystem_useFrame isTreeForm e (Fin dt) st)"
proof -
  define target :: real where "target = (if isTreeForm then 1 else 0)"
  have new: "progress (FoliageSystem_useFrame isTreeForm e (Fin dt) st)
      = Fin (p + (target - p) * (1.5 * dt))"
    unfolding target_def by (rule useFrame_progress[OF assms(1,2)])
  have "p + (target - p) * (1.5 * dt) = spec_tick 1.5 p target dt
      \<longleftrightarrow> (target - p) * (1.5 * dt) = (target - p) * min 1 (1.5 * dt)"
    by (simp add: spec_tick_def)
  also have "\<dots> \<longleftrightarrow> target - p = 0 \<or> 1.5 * dt = min 1 (1.5 * dt)"
    by (simp only: mult_cancel_left)
  also have "\<dots> \<longleftrightarrow> 1.5 * dt \<le> 1 \<or> p = target" by (auto simp: min_def)
  finally have iff: "progress (FoliageSystem_useFrame isTreeForm e (Fin dt) st)
        = Fin (spec_tick 1.5 p target dt) \<longleftrightarrow> 1.5 * dt \<le> 1 \<or> p = target"
    by (simp add: new)
  have "target = 0 \<or> target = 1" by (simp add: target_def)
  from useFrame_in_range[OF assms(3,4) this]
  have rng: "double_range (dt * 1.5) \<and> MathUtils_lerp_in_range p target (dt * 1.5)" .
  show ?thesis
    using rng new iff useFrame_uProgress[OF assms(1), of isTreeForm e "Fin dt"]
    unfolding target_def by blast
qed

theorem tick_uncapped_witness:
  "double_range (1 / 3 * 1.5)
   \<and> MathUtils_lerp_in_range 0 (if True then 1 else 0) (1 / 3 * 1.5)
   \<and> progress (FoliageSystem_useFrame True (Fin 1) (Fin (1 / 3))
       \<lparr> meshRef_current = True, progress = Fin 0, uniforms_uTime = Fin 0,
         uniforms_uProgress = Fin 0, rotation_y = Fin 0 \<rparr>)
     = Fin (0 + ((if True then 1 else 0) - 0) * (1.5 * (1 / 3)))
   \<and> progress (FoliageSystem_useFrame True (Fin 1) (Fin (1 / 3))
       \<lparr> meshRef_current = True, progress = Fin 0, uniforms_uTime = Fin 0,
         uniforms_uProgress = Fin 0, rotation_y = Fin 0 \<rparr>)
     = Fin (spec_tick 1.5 0 (if True then 1 else 0) (1 / 3))"
proof -
  let ?st = "\<lparr> meshRef_current = True, progress = Fin 0, uniforms_uTime = Fin 0,
         uniforms_uProgress = Fin 0, rotation_y = Fin 0 \<rparr>"
  have m: "meshRef_current ?st" and p: "progress ?st = Fin 0" by simp_all
  have b: "\<bar>0::real\<bar> \<le> 2 ^ 500" "\<bar>1 / 3 :: real\<bar> \<le> 2 ^ 500"
    by (simp_all add: order_trans[OF _ one_le_power])
  have c: "(1.5::real) * (1 / 3) \<le> 1" by simp
  show ?thesis
    using tick_uncapped[OF m p b, of True "Fin 1"] c by blast
qed

text \<open>
  At \<open>dt = 2\<close> the code moves the progress from 0 to 3, where the capped rule of the
  specification gives 1.
\<close>

theorem tick_cap_counterexample:
  "progress (FoliageSystem_useFrame True (Fin 2) (Fin 2)
       \<lparr> meshRef_current = True, progress = Fin 0, uniforms_uTime = Fin 0,
         uniforms_uProgress = Fin 0, rotation_y = Fin 0 \<rparr>) = Fin 3
   \<and> spec_tick 1.5 0 1 2 = 1"
  by (simp add: FoliageSystem_useFrame_def MathUtils_lerp_def spec_tick_def minus_jsnum_def
        Let_def)

text \<open>
  Claim C2, as the code has it. From progress 0, with the target at 1 and the mesh mounted,
  \<open>n\<close> ticks of a fixed \<open>dt\<close> with \<open>0 < dt \<le> 2/3\<close> leave the progress at
  \<open>1 - (1 - 1.5 * dt) ^ n\<close>: it stays in \<open>[0, 1]\<close>, never decreases, and tends to 1.
\<close>

theorem progress_converges:
  assumes "0 < dt" and "dt \<le> 2 / 3" and "meshRef_current st" and "progress st = Fin 0"
  shows "\<exists>c. (\<forall>n. progress (FoliageSystem_frames True
                        (map (\<lambda>i. (elapsed i, Fin dt)) [0 ..< n]) st) = Fin (c n)
               \<and> c n = 1 - (1 - 1.5 * dt) ^ n
               \<and> 0 \<le> c n \<and> c n \<le> c (Suc n) \<and> c n \<le> 1)
           \<and> c \<longlonglongrightarrow> 1"
proof -
  define q where "q = 1 - 1.5 * dt"
  define c where "c = (\<lambda>n::nat. 1 - q ^ n)"
  have q: "0 \<le> q" "q < 1" using assms(1,2) by (simp_all add: q_def)
  have run: "progress (FoliageSystem_frames True (map (\<lambda>i. (elapsed i, Fin dt)) [0 ..< n]) st)
      = Fin (c n)" for n
    using frames_progress[OF assms(3,4), of "map (\<lambda>i. (elapsed i, Fin dt)) [0 ..< n]" dt]
    by (simp add: c_def q_def)
  have le1: "q ^ n \<le> 1" for n using q by (simp add: power_le_one)
  have ge0: "0 \<le> q ^ n" for n using q by simp
  have step: "q ^ Suc n \<le> q ^ n" for n
    using q ge0[of n] by (simp add: mult_left_le_one_le)
  have "(\<lambda>n. q ^ n) \<longlonglongrightarrow> 0" using q by (rule LIMSEQ_realpow_zero)
  then have "(\<lambda>n. 1 - q ^ n) \<longlonglongrightarrow> 1 - 0" by (intro tendsto_diff tendsto_const)
  then have lim: "c \<longlonglongrightarrow> 1" by (simp add: c_def)
  have "\<forall>n. progress (FoliageSystem_frames True (map (\<lambda>i. (elapsed i, Fin dt)) [0 ..< n]) st)
             = Fin (c n)
           \<and> c n = 1 - (1 - 1.5 * dt) ^ n \<and> 0 \<le> c n \<and> c n \<le> c (Suc n) \<and> c n \<le> 1"
    using run le1 ge0 step by (simp add: c_def q_def)
  with lim show ?thesis by blast
qed

theorem progress_converges_witness:
  "\<exists>c. (\<forall>n. progress (FoliageSystem_frames True
                  (map (\<lambda>i. (Fin (real i / 3), Fin (1 / 3))) [0 ..< n])
                  \<lparr> meshRef_current = True, progress = Fin 0, uniforms_uTime = Fin 0,
                    uniforms_uProgress = Fin 0, rotation_y = Fin 0 \<rparr>) = Fin (c n)
             \<and> c n = 1 - (1 - 1.5 * (1 / 3)) ^ n
             \<and> 0 \<le> c n \<and> c n \<le> c (Suc n) \<and> c n \<le> 1)
       \<and> c \<longlonglongrightarrow> 1"
proof -
  let ?st = "\<lparr> meshRef_current = True, progress = Fin 0, uniforms_uTime = Fin 0,
         uniforms_uProgress = Fin 0, rotation_y = Fin 0 \<rparr>"
  have d: "(0::real) < 1 / 3" "(1::real) / 3 \<le> 2 / 3" by simp_all
  have m: "meshRef_current ?st" and p: "progress ?st = Fin 0" by simp_all
  show ?thesis by (rule progress_converges[OF d m p])
qed

text \<open>With \<open>dt = 1\<close> the first tick takes the progress from 0 to 1.5, above 1.\<close>

theorem progress_overshoot_counterexample:
  "progress (FoliageSystem_frames True [(Fin 1, Fin 1)]
       \<lparr> meshRef_current = True, progress = Fin 0, uniforms_uTime = Fin 0,
         uniforms_uProgress = Fin 0, rotation_y = Fin 0 \<rparr>) = Fin (3 / 2)
   \<and> \<not> (3 / 2 \<le> (1::real))"
  by (simp add: FoliageSystem_useFrame_def MathUtils_lerp_def minus_jsnum_def Let_def)

section \<open>The formation blend of the vertex shader\<close>

lemma cubic_mono:
  fixes a b :: real
  assumes "0 \<le> a" and "a \<le> b" and "b \<le> 1"
  shows "a * a * (3 - 2 * a) \<le> b * b * (3 - 2 * b)"
proof -
  have eq: "b * b * (3 - 2 * b) - a * a * (3 - 2 * a)
      = (b - a) * (3 * (a + b) - 2 * (a * a + a * b + b * b))"
    by (simp add: algebra_simps)
  have "a * a \<le> a" "b * b \<le> b" "a * b \<le> a" "a * b \<le> b"
    using assms by (simp_all add: mult_left_le mult_left_le_one_le)
  then have "2 * (a * a) \<le> 2 * a" "2 * (b * b) \<le> 2 * b" "2 * (a * b) \<le> a + b"
    by simp_all
  then have "2 * (a * a) + 2 * (a * b) + 2 * (b * b) \<le> 3 * (a + b)" by simp
  then have "0 \<le> 3 * (a + b) - 2 * (a * a + a * b + b * b)" by (simp add: distrib_left)
  then have "0 \<le> (b - a) * (3 * (a + b) - 2 * (a * a + a * b + b * b))"
    using assms by (intro mult_nonneg_nonneg) simp_all
  with eq show ?thesis by linarith
qed

lemma cubic_eq_1:
  fixes a :: real
  assumes "0 \<le> a" and "a \<le> 1"
  shows "a * a * (3 - 2 * a) = 1 \<longleftrightarrow> a = 1"
proof
  assume h: "a * a * (3 - 2 * a) = 1"
  have "1 - a * a * (3 - 2 * a) = (1 - a) * (1 - a) * (1 + 2 * a)" by (simp add: algebra_simps)
  with h have "(1 - a) * (1 - a) * (1 + 2 * a) = 0" by simp
  with assms show "a = 1" by auto
qed simp

lemma smoothstep01_mono: "x \<le> y \<Longrightarrow> smoothstep 0 1 x \<le> smoothstep 0 1 y"
  unfolding smoothstep_def Let_def clamp_def
  by (rule cubic_mono) auto

lemma smoothstep01_eq_1: "smoothstep 0 1 x = 1 \<longleftrightarrow> 1 \<le> x"
proof -
  let ?t = "clamp x 0 1"
  have r: "0 \<le> ?t" "?t \<le> 1" by (simp_all add: clamp_def)
  have "smoothstep 0 1 x = 1 \<longleftrightarrow> ?t = 1"
    using cubic_eq_1[OF r] by (simp add: smoothstep_def Let_def)
  also have "\<dots> \<longleftrightarrow> 1 \<le> x" by (auto simp: clamp_def min_def max_def)
  finally show ?thesis .
qed

lemma smoothstep01_eq_0: "smoothstep 0 1 x = 0 \<longleftrightarrow> x \<le> 0"
proof -
  let ?t = "clamp x 0 1"
  have r: "0 \<le> ?t" "?t \<le> 1" by (simp_all add: clamp_def)
  have "smoothstep 0 1 x = 0 \<longleftrightarrow> ?t = 0"
    using r by (auto simp add: smoothstep_def Let_def)
  also have "\<dots> \<longleftrightarrow> x \<le> 0" by (auto simp: clamp_def min_def max_def)
  finally show ?thesis .
qed

lemma smoothstep01_range: "0 \<le> smoothstep 0 1 x \<and> smoothstep 0 1 x \<le> 1"
proof -
  have "smoothstep 0 1 0 \<le> smoothstep 0 1 (max x 0)" by (rule smoothstep01_mono) simp
  moreover have "smoothstep 0 1 (max x 0) = smoothstep 0 1 x"
    by (simp add: smoothstep_def clamp_def)
  moreover have "smoothstep 0 1 (min x 1) \<le> smoothstep 0 1 1" by (rule smoothstep01_mono) simp
  moreover have "smoothstep 0 1 (min x 1) = smoothstep 0 1 x"
    by (simp add: smoothstep_def clamp_def min_def max_def)
  moreover have "smoothstep 0 1 0 = 0" "smoothstep 0 1 1 = 1"
    by (simp_all add: smoothstep_def clamp_def)
  ultimately show ?thesis by simp
qed

lemma localProgress_arg:
  "localProgress U A = smoothstep 0 1 (uProgress U + delay A * (2 * uProgress U - 1))"
  by (simp add: localProgress_def Let_def algebra_simps)

lemma localProgress_first_half:
  assumes "vy (aTreePos A1) \<le> vy (aTreePos A2)" and "uProgress U \<le> 1 / 2"
  shows "localProgress U A2 \<le> localProgress U A1"
  unfolding localProgress_arg
  apply (rule smoothstep01_mono)
  using assms by (simp add: mult_right_mono_neg delay_def)

lemma localProgress_second_half:
  assumes "vy (aTreePos A1) \<le> vy (aTreePos A2)" and "1 / 2 \<le> uProgress U"
  shows "localProgress U A1 \<le> localProgress U A2"
  unfolding localProgress_arg
  apply (rule smoothstep01_mono)
  using assms by (simp add: mult_right_mono delay_def)

lemma localProgress_0:
  assumes "- 10 \<le> vy (aTreePos A)" and "uProgress U = 0"
  shows "localProgress U A = 0"
  unfolding localProgress_arg smoothstep01_eq_0 using assms by (simp add: delay_def)

lemma localProgress_1:
  assumes "- 10 \<le> vy (aTreePos A)" and "uProgress U = 1"
  shows "localProgress U A = 1"
  unfolding localProgress_arg smoothstep01_eq_1 using assms by (simp add: delay_def)

lemma localProgress_started:
  assumes "- 10 \<le> vy (aTreePos A)" and "1 / 2 < uProgress U"
  shows "0 < localProgress U A"
proof -
  have "0 \<le> delay A * (2 * uProgress U - 1)"
    using assms by (intro mult_nonneg_nonneg) (simp_all add: delay_def)
  then have "\<not> uProgress U + delay A * (2 * uProgress U - 1) \<le> 0" using assms(2) by simp
  then have "localProgress U A \<noteq> 0" unfolding localProgress_arg smoothstep01_eq_0 .
  moreover have "0 \<le> localProgress U A" unfolding localProgress_arg using smoothstep01_range by simp
  ultimately show ?thesis by simp
qed

lemma localProgress_settled:
  assumes "- 10 \<le> vy (aTreePos A)" and "localProgress U A = 1"
  shows "1 / 2 < uProgress U"
proof (rule ccontr)
  assume "\<not> 1 / 2 < uProgress U"
  then have t: "uProgress U \<le> 1 / 2" by simp
  have "delay A * (2 * uProgress U - 1) \<le> 0"
    using assms(1) t by (intro mult_nonneg_nonpos) (simp_all add: delay_def)
  then have "\<not> 1 \<le> uProgress U + delay A * (2 * uProgress U - 1)" using t by simp
  then have "localProgress U A \<noteq> 1" unfolding localProgress_arg smoothstep01_eq_1 .
  with assms(2) show False by simp
qed

text \<open>
  Claim C3, as the code has it. Let particle \<open>A1\<close> have a formed position no higher than
  particle \<open>A2\<close>. Up to global progress 1/2 the higher particle is behind: its local
  progress is no greater, and (for a formed height of at least -10, where the delay is not
  negative) whenever the higher particle has started, the lower one has. From 1/2 on the
  order is the opposite: the higher particle's local progress is no smaller, and whenever
  the lower particle has settled (local progress 1), the higher one has.
\<close>

theorem local_progress_order:
  assumes "vy (aTreePos A1) \<le> vy (aTreePos A2)"
  shows "(uProgress U \<le> 1 / 2 \<longrightarrow> localProgress U A2 \<le> localProgress U A1)
       \<and> (- 10 \<le> vy (aTreePos A1) \<longrightarrow> 0 < localProgress U A2 \<longrightarrow> 0 < localProgress U A1)
       \<and> (1 / 2 \<le> uProgress U \<longrightarrow> localProgress U A1 \<le> localProgress U A2)
       \<and> (- 10 \<le> vy (aTreePos A1) \<longrightarrow> localProgress U A1 = 1 \<longrightarrow> localProgress U A2 = 1)"
proof (intro conjI impI)
  assume "uProgress U \<le> 1 / 2"
  with assms show "localProgress U A2 \<le> localProgress U A1" by (rule localProgress_first_half)
next
  assume y: "- 10 \<le> vy (aTreePos A1)" and s: "0 < localProgress U A2"
  show "0 < localProgress U A1"
  proof (cases "uProgress U \<le> 1 / 2")
    case True
    with assms have "localProgress U A2 \<le> localProgress U A1" by (rule localProgress_first_half)
    with s show ?thesis by simp
  next
    case False
    then have "1 / 2 < uProgress U" by simp
    with y show ?thesis by (rule localProgress_started)
  qed
next
  assume "1 / 2 \<le> uProgress U"
  with assms show "localProgress U A1 \<le> localProgress U A2" by (rule localProgress_second_half)
next
  assume y: "- 10 \<le> vy (aTreePos A1)" and s: "localProgress U A1 = 1"
  from y s have "1 / 2 < uProgress U" by (rule localProgress_settled)
  then have "1 / 2 \<le> uProgress U" by simp
  with assms have "localProgress U A1 \<le> localProgress U A2" by (rule localProgress_second_half)
  moreover have "localProgress U A2 \<le> 1"
    unfolding localProgress_arg using smoothstep01_range by simp
  ultimately show "localProgress U A2 = 1" using s by simp
qed

theorem local_progress_order_witness:
  "localProgress \<lparr> uTime = 0, uProgress = 7 / 10, uPixelRatio = 1 \<rparr>
      \<lparr> aScatterPos = \<lparr> vx = 1, vy = 0, vz = 0 \<rparr>, aTreePos = \<lparr> vx = 0, vy = - 6, vz = 0 \<rparr>,
        aRandom = 0, aSize = 1, aColorType = 0 \<rparr>
   \<le> localProgress \<lparr> uTime = 0, uProgress = 7 / 10, uPixelRatio = 1 \<rparr>
      \<lparr> aScatterPos = \<lparr> vx = 1, vy = 0, vz = 0 \<rparr>, aTreePos = \<lparr> vx = 0, vy = 6, vz = 0 \<rparr>,
        aRandom = 0, aSize = 1, aColorType = 0 \<rparr>"
  using local_progress_order
    [of "\<lparr> aScatterPos = \<lparr> vx = 1, vy = 0, vz = 0 \<rparr>, aTreePos = \<lparr> vx = 0, vy = - 6, vz = 0 \<rparr>,
          aRandom = 0, aSize = 1, aColorType = 0 \<rparr>"
        "\<lparr> aScatterPos = \<lparr> vx = 1, vy = 0, vz = 0 \<rparr>, aTreePos = \<lparr> vx = 0, vy = 6, vz = 0 \<rparr>,
          aRandom = 0, aSize = 1, aColorType = 0 \<rparr>"
        "\<lparr> uTime = 0, uProgress = 7 / 10, uPixelRatio = 1 \<rparr>"]
  by simp

text \<open>
  At global progress 0.7 the particle bound for the top of the tree (\<open>y = 6\<close>) has settled
  and the one bound for the bottom (\<open>y = -6\<close>) has not.
\<close>

theorem settle_order_counterexample:
  "localProgress \<lparr> uTime = 0, uProgress = 7 / 10, uPixelRatio = 1 \<rparr>
      \<lparr> aScatterPos = \<lparr> vx = 1, vy = 0, vz = 0 \<rparr>, aTreePos = \<lparr> vx = 0, vy = 6, vz = 0 \<rparr>,
        aRandom = 0, aSize = 1, aColorType = 0 \<rparr> = 1
   \<and> localProgress \<lparr> uTime = 0, uProgress = 7 / 10, uPixelRatio = 1 \<rparr>
      \<lparr> aScatterPos = \<lparr> vx = 1, vy = 0, vz = 0 \<rparr>, aTreePos = \<lparr> vx = 0, vy = - 6, vz = 0 \<rparr>,
        aRandom = 0, aSize = 1, aColorType = 0 \<rparr> \<noteq> 1"
  by (simp add: localProgress_def smoothstep_def clamp_def Let_def delay_def)

text \<open>
  Claim C4, as the code has it. For a formed position of height at least -10 (every point
  of the tree is one: its heights lie in \<open>[-6, 6]\<close>), the blend at global progress 0 is the
  scatter position and at global progress 1 the formed position.
\<close>

theorem blend_endpoints:
  assumes "- 10 \<le> vy (aTreePos A)"
  shows "(uProgress U = 0 \<longrightarrow> blendPos U A = aScatterPos A)
       \<and> (uProgress U = 1 \<longrightarrow> blendPos U A = aTreePos A)"
  using assms
  by (simp add: blendPos_def localProgress_0 localProgress_1 mix_def easeOutCubic_def)

theorem blend_endpoints_witness:
  "blendPos \<lparr> uTime = 3, uProgress = 0, uPixelRatio = 1 \<rparr>
      \<lparr> aScatterPos = \<lparr> vx = 1, vy = 2, vz = 3 \<rparr>, aTreePos = \<lparr> vx = 0, vy = 6, vz = 0 \<rparr>,
        aRandom = 1 / 2, aSize = 1, aColorType = 0 \<rparr> = \<lparr> vx = 1, vy = 2, vz = 3 \<rparr>
   \<and> blendPos \<lparr> uTime = 3, uProgress = 1, uPixelRatio = 1 \<rparr>
      \<lparr> aScatterPos = \<lparr> vx = 1, vy = 2, vz = 3 \<rparr>, aTreePos = \<lparr> vx = 0, vy = 6, vz = 0 \<rparr>,
        aRandom = 1 / 2, aSize = 1, aColorType = 0 \<rparr> = \<lparr> vx = 0, vy = 6, vz = 0 \<rparr>"
  using blend_endpoints
    [of "\<lparr> aScatterPos = \<lparr> vx = 1, vy = 2, vz = 3 \<rparr>, aTreePos = \<lparr> vx = 0, vy = 6, vz = 0 \<rparr>,
          aRandom = 1 / 2, aSize = 1, aColorType = 0 \<rparr>"
        "\<lparr> uTime = 3, uProgress = 0, uPixelRatio = 1 \<rparr>"]
    blend_endpoints
    [of "\<lparr> aScatterPos = \<lparr> vx = 1, vy = 2, vz = 3 \<rparr>, aTreePos = \<lparr> vx = 0, vy = 6, vz = 0 \<rparr>,
          aRandom = 1 / 2, aSize = 1, aColorType = 0 \<rparr>"
        "\<lparr> uTime = 3, uProgress = 1, uPixelRatio = 1 \<rparr>"]
  by simp

text \<open>
  For a formed position of height -30 the delay is -1, and the blend at global progress 0 is
  the formed position, not the scatter position.
\<close>

theorem blend_start_counterexample:
  "blendPos \<lparr> uTime = 0, uProgress = 0, uPixelRatio = 1 \<rparr>
      \<lparr> aScatterPos = \<lparr> vx = 1, vy = 0, vz = 0 \<rparr>, aTreePos = \<lparr> vx = 0, vy = - 30, vz = 0 \<rparr>,
        aRandom = 0, aSize = 1, aColorType = 0 \<rparr> = \<lparr> vx = 0, vy = - 30, vz = 0 \<rparr>
   \<and> blendPos \<lparr> uTime = 0, uProgress = 0, uPixelRatio = 1 \<rparr>
      \<lparr> aScatterPos = \<lparr> vx = 1, vy = 0, vz = 0 \<rparr>, aTreePos = \<lparr> vx = 0, vy = - 30, vz = 0 \<rparr>,
        aRandom = 0, aSize = 1, aColorType = 0 \<rparr> \<noteq> \<lparr> vx = 1, vy = 0, vz = 0 \<rparr>"
  by (simp add: blendPos_def localProgress_def smoothstep_def clamp_def Let_def mix_def
        easeOutCubic_def delay_def)

text \<open>
  Claim C9. While the uniform \<open>uProgress\<close> is at most 0.8, the position the shader computes
  is the blend alone: two evaluations that agree on \<open>aScatterPos\<close>, \<open>aTreePos\<close> and
  \<open>uProgress\<close> give the same position, whatever \<open>uTime\<close>, \<open>uPixelRatio\<close>, \<open>aRandom\<close>,
  \<open>aSize\<close> and \<open>aColorType\<close> are.
\<close>

theorem finalPos_below_threshold:
  assumes "uProgress U \<le> 0.8"
    and "uProgress U' = uProgress U"
    and "aScatterPos A' = aScatterPos A"
    and "aTreePos A' = aTreePos A"
  shows "finalPos U' A' = finalPos U A \<and> finalPos U A = Some (blendPos U A)"
  using assms by (simp add: finalPos_def blendPos_def localProgress_def Let_def delay_def)

theorem finalPos_below_threshold_witness:
  "finalPos \<lparr> uTime = 7, uProgress = 4 / 5, uPixelRatio = 2 \<rparr>
      \<lparr> aScatterPos = \<lparr> vx = 1, vy = 2, vz = 3 \<rparr>, aTreePos = \<lparr> vx = 0, vy = 6, vz = 0 \<rparr>,
        aRandom = 9 / 10, aSize = 3 / 4, aColorType = 3 \<rparr>
   = finalPos \<lparr> uTime = 0, uProgress = 4 / 5, uPixelRatio = 1 \<rparr>
      \<lparr> aScatterPos = \<lparr> vx = 1, vy = 2, vz = 3 \<rparr>, aTreePos = \<lparr> vx = 0, vy = 6, vz = 0 \<rparr>,
        aRandom = 1 / 10, aSize = 1, aColorType = 0 \<rparr>"
  using finalPos_below_threshold
    [of "\<lparr> uTime = 0, uProgress = 4 / 5, uPixelRatio = 1 \<rparr>"
        "\<lparr> uTime = 7, uProgress = 4 / 5, uPixelRatio = 2 \<rparr>"
        "\<lparr> aScatterPos = \<lparr> vx = 1, vy = 2, vz = 3 \<rparr>, aTreePos = \<lparr> vx = 0, vy = 6, vz = 0 \<rparr>,
          aRandom = 9 / 10, aSize = 3 / 4, aColorType = 3 \<rparr>"
        "\<lparr> aScatterPos = \<lparr> vx = 1, vy = 2, vz = 3 \<rparr>, aTreePos = \<lparr> vx = 0, vy = 6, vz = 0 \<rparr>,
          aRandom = 1 / 10, aSize = 1, aColorType = 0 \<rparr>"]
  by simp

section \<open>The point generators\<close>

lemma isFinite_ex: "isFinite a \<longleftrightarrow> (\<exists>r. a = Fin r)"
  by (cases a) simp_all

lemma finite_vec_ex: "finite_vec v \<longleftrightarrow> (\<exists>r. v = fin_vec r)"
proof
  assume "finite_vec v"
  then obtain a b c where "vx v = Fin a" "vy v = Fin b" "vz v = Fin c"
    unfolding finite_vec_def isFinite_ex by blast
  then have "v = fin_vec \<lparr> vx = a, vy = b, vz = c \<rparr>" by (simp add: fin_vec_def)
  then show "\<exists>r. v = fin_vec r" ..
next
  assume "\<exists>r. v = fin_vec r"
  then show "finite_vec v" by (auto simp: fin_vec_def finite_vec_def)
qed

lemma sphere_val:
  assumes "0 \<le> v" and "v \<le> 1"
  shows "randomInSphere (Fin R) u v w =
     \<lparr> vx = Fin (root 3 w * R * sin (arccos (2 * v - 1)) * cos (2 * pi * u)),
       vy = Fin (root 3 w * R * sin (arccos (2 * v - 1)) * sin (2 * pi * u)),
       vz = Fin (root 3 w * R * cos (arccos (2 * v - 1))) \<rparr>"
  using assms by (simp add: randomInSphere_def Let_def minus_jsnum_def Math_PI_def)

lemma sphere_finite: "0 \<le> v \<Longrightarrow> v \<le> 1 \<Longrightarrow> finite_vec (randomInSphere (Fin R) u v w)"
  by (simp add: sphere_val finite_vec_def)

lemma sphere_norm_aux:
  fixes r sp cp st ct :: real
  assumes t: "ct * ct + st * st = 1" and p: "cp * cp + sp * sp = 1"
  shows "(r * sp * ct) * (r * sp * ct) + (r * sp * st) * (r * sp * st) + (r * cp) * (r * cp)
       = r * r"
proof -
  have "(r * sp * ct) * (r * sp * ct) + (r * sp * st) * (r * sp * st) + (r * cp) * (r * cp)
     = r * r * (sp * sp * (ct * ct + st * st) + cp * cp)"
    by (simp add: algebra_simps)
  also have "\<dots> = r * r * (cp * cp + sp * sp)" by (simp only: t mult_1_right add.commute)
  also have "\<dots> = r * r" by (simp only: p mult_1_right)
  finally show ?thesis .
qed

lemma sphere_norm:
  fixes r :: real
  shows "(r * sin p * cos t) * (r * sin p * cos t) + (r * sin p * sin t) * (r * sin p * sin t)
       + (r * cos p) * (r * cos p) = r * r"
  by (rule sphere_norm_aux) (rule sin_cos_squared_add3)+

lemma tree_y:
  "vy (randomOnTree (Fin h) rb (Fin lo) (Fin hi) u u2)
     = Fin (u * (h * hi - h * lo) + h * lo - h / 2)"
  by (simp add: randomOnTree_def Let_def minus_jsnum_def)

lemma tree_percentage:
  assumes "h \<noteq> 0"
  shows "Fin 1 - (Fin u * (Fin h * Fin hi - Fin h * Fin lo) + Fin h * Fin lo) / Fin h
     = Fin (1 - (u * (hi - lo) + lo))"
  using assms by (simp add: minus_jsnum_def field_simps)

lemma Math_pow_finite: "0 \<le> p \<Longrightarrow> isFinite (Math_pow (Fin p) 1.2)"
  by simp

lemma tree_finite:
  assumes "h \<noteq> 0" and "lo \<le> 1" and "hi \<le> 1" and "0 \<le> u" and "u \<le> 1"
  shows "finite_vec (randomOnTree (Fin h) (Fin rb) (Fin lo) (Fin hi) u u2)"
proof -
  have "u * (hi - lo) + lo = (1 - u) * lo + u * hi" by (simp add: algebra_simps)
  also have "\<dots> \<le> (1 - u) * 1 + u * 1"
    using assms by (intro add_mono mult_left_mono) simp_all
  finally have p: "0 \<le> 1 - (u * (hi - lo) + lo)" by simp
  obtain q where q: "Math_pow (Fin (1 - (u * (hi - lo) + lo))) 1.2 = Fin q"
    using Math_pow_finite[OF p] unfolding isFinite_ex by blast
  show ?thesis
    unfolding randomOnTree_def Let_def finite_vec_def tree_percentage[OF assms(1)] q
    by (simp add: minus_jsnum_def Math_PI_def)
qed

lemma tree_height_0:
  "randomOnTree (Fin 0) (Fin rb) (Fin lo) (Fin hi) u u2 = \<lparr> vx = NaN, vy = Fin 0, vz = NaN \<rparr>"
  by (simp add: randomOnTree_def Let_def minus_jsnum_def Math_PI_def)

lemma half_band:
  fixes u h :: real
  assumes "0 \<le> u" and "u < 1"
  shows "\<bar>u * h - h / 2\<bar> \<le> \<bar>h\<bar> / 2"
proof -
  have "u * h - h / 2 = (u - 1 / 2) * h" by (simp add: algebra_simps)
  then have "\<bar>u * h - h / 2\<bar> = \<bar>u - 1 / 2\<bar> * \<bar>h\<bar>" by (simp only: abs_mult)
  moreover have "\<bar>u - 1 / 2\<bar> \<le> 1 / 2" using assms by linarith
  then have "\<bar>u - 1 / 2\<bar> * \<bar>h\<bar> \<le> 1 / 2 * \<bar>h\<bar>" by (rule mult_right_mono) simp
  ultimately show ?thesis by simp
qed

lemma tree_in_range:
  fixes h rb lo hi u u2 :: real
  assumes h0: "h \<noteq> 0" and hb: "\<bar>h\<bar> \<le> 2 ^ 300" and rbb: "\<bar>rb\<bar> \<le> 2 ^ 300"
    and lob: "\<bar>lo\<bar> \<le> 2 ^ 300" and lo1: "lo \<le> 1"
    and hib: "\<bar>hi\<bar> \<le> 2 ^ 300" and hi1: "hi \<le> 1"
    and u: "0 \<le> u" "u < 1" and u2: "0 \<le> u2" "u2 < 1"
  shows "randomOnTree_in_range h rb lo hi u u2"
proof -
  let ?minH = "h * lo"
  let ?maxH = "h * hi"
  let ?range = "?maxH - ?minH"
  let ?y = "u * ?range + ?minH"
  let ?pct = "1 - (?y / h)"
  let ?r = "rb * ?pct powr 1.2"
  let ?theta = "u2 * pi * 2"
  let ?ln = "sin (?y * 3.0) * 0.15"
  have ub: "\<bar>u\<bar> \<le> 2 ^ 0" and u2b: "\<bar>u2\<bar> \<le> 2 ^ 0" using u u2 by simp_all
  have m1: "\<bar>?minH\<bar> \<le> 2 ^ 600" using abs_mult_pow[OF hb lob] by simp
  have m2: "\<bar>?maxH\<bar> \<le> 2 ^ 600" using abs_mult_pow[OF hb hib] by simp
  have rg: "\<bar>?range\<bar> \<le> 2 ^ 601" using abs_add_pow(2)[OF m2 m1] by simp
  have ur: "\<bar>u * ?range\<bar> \<le> 2 ^ 601" using abs_mult_pow[OF ub rg] by simp
  have yb: "\<bar>?y\<bar> \<le> 2 ^ 602"
    using abs_add_pow(1)[OF ur pow_mono2[OF m1, of 601]] by simp
  have qeq: "?y / h = u * (hi - lo) + lo" using h0 by (simp add: field_simps)
  have d1: "\<bar>hi - lo\<bar> \<le> 2 ^ 301" using abs_add_pow(2)[OF hib lob] by simp
  have d2: "\<bar>u * (hi - lo)\<bar> \<le> 2 ^ 301" using abs_mult_pow[OF ub d1] by simp
  have qb': "\<bar>u * (hi - lo) + lo\<bar> \<le> 2 ^ 302"
    using abs_add_pow(1)[OF d2 pow_mono2[OF lob, of 301]] by simp
  have qb: "\<bar>?y / h\<bar> \<le> 2 ^ 302" unfolding qeq by (rule qb')
  have one: "\<bar>1 :: real\<bar> \<le> 2 ^ 302" using one_le_power[of "2::real" 302] by simp
  have pb: "\<bar>?pct\<bar> \<le> 2 ^ 303" using abs_add_pow(2)[OF one qb] by simp
  have "u * (hi - lo) + lo = (1 - u) * lo + u * hi" by (simp add: algebra_simps)
  also have "\<dots> \<le> (1 - u) * 1 + u * 1"
    using u lo1 hi1 by (intro add_mono mult_left_mono) simp_all
  finally have p0: "0 \<le> ?pct" unfolding qeq by simp
  have pub: "?pct \<le> 2 ^ 303" using pb by simp
  have pw: "\<bar>?pct powr 1.2\<bar> \<le> 2 ^ 606" using powr_1_2_bound[OF p0 pub] by simp
  have rb': "\<bar>?r\<bar> \<le> 2 ^ 906" using abs_mult_pow[OF rbb pw] by simp
  have pib: "\<bar>pi\<bar> \<le> 2 ^ 2" using pi_less_4 pi_ge_zero by simp
  have th1: "\<bar>u2 * pi\<bar> \<le> 2 ^ 2" using abs_mult_pow[OF u2b pib] by simp
  have two: "\<bar>2 :: real\<bar> \<le> 2 ^ 1" by simp
  have th: "\<bar>?theta\<bar> \<le> 2 ^ 3" using abs_mult_pow[OF th1 two] by simp
  have three: "\<bar>3.0 :: real\<bar> \<le> 2 ^ 2" by simp
  have y3: "\<bar>?y * 3.0\<bar> \<le> 2 ^ 604" using abs_mult_pow[OF yb three] by simp
  have sb: "\<bar>sin (?y * 3.0)\<bar> \<le> 2 ^ 0" by simp
  have cb: "\<bar>0.15 :: real\<bar> \<le> 2 ^ 0" by simp
  have lnb: "\<bar>?ln\<bar> \<le> 2 ^ 0" using abs_mult_pow[OF sb cb] by simp
  have rl: "\<bar>?r + ?ln\<bar> \<le> 2 ^ 907"
    using abs_add_pow(1)[OF rb' pow_mono2[OF lnb, of 906]] by simp
  have cosb: "\<bar>cos ?theta\<bar> \<le> 2 ^ 0" and sinb: "\<bar>sin ?theta\<bar> \<le> 2 ^ 0" by simp_all
  have xb: "\<bar>(?r + ?ln) * cos ?theta\<bar> \<le> 2 ^ 907" using abs_mult_pow[OF rl cosb] by simp
  have zb: "\<bar>(?r + ?ln) * sin ?theta\<bar> \<le> 2 ^ 907" using abs_mult_pow[OF rl sinb] by simp
  have h2: "\<bar>h / 2\<bar> \<le> 2 ^ 300" using hb by simp
  have yo: "\<bar>?y - h / 2\<bar> \<le> 2 ^ 603"
    using abs_add_pow(2)[OF yb pow_mono2[OF h2, of 602]] by simp
  note dr = double_rangeI[OF m1] double_rangeI[OF m2] double_rangeI[OF rg] double_rangeI[OF ur]
    double_rangeI[OF yb] double_rangeI[OF qb] double_rangeI[OF pb] double_rangeI[OF pw]
    double_rangeI[OF rb'] double_rangeI[OF th1] double_rangeI[OF th] double_rangeI[OF y3]
    double_rangeI[OF lnb] double_rangeI[OF rl] double_rangeI[OF xb] double_rangeI[OF h2]
    double_rangeI[OF yo] double_rangeI[OF zb]
  show ?thesis
    unfolding randomOnTree_in_range_def Let_def
    by (intro conjI dr) simp_all
qed

text \<open>
  Claim C5, as the code has it. Neither generator has an error path. With every draw in
  \<open>[0, 1)\<close>, the scatter point has three finite coordinates for every finite radius, and
  the formation point has three finite coordinates for every height other than 0, base
  radius and band ratios of magnitude at most \<open>2 ^ 300\<close>, the ratios being at most 1;
  within these bounds every operation of the generator stays within the range of the
  doubles. At height 0 the formation point has \<open>y = 0\<close>, and its \<open>x\<close> and \<open>z\<close> are NaN.
\<close>

theorem generators_finite:
  assumes "\<forall>k. 0 \<le> d k \<and> d k < 1"
  shows "finite_vec (randomInSphere (Fin radius) (d 0) (d 1) (d 2))
       \<and> (h \<noteq> 0 \<and> \<bar>h\<bar> \<le> 2 ^ 300 \<and> \<bar>rb\<bar> \<le> 2 ^ 300
            \<and> \<bar>lo\<bar> \<le> 2 ^ 300 \<and> lo \<le> 1 \<and> \<bar>hi\<bar> \<le> 2 ^ 300 \<and> hi \<le> 1 \<longrightarrow>
            randomOnTree_in_range h rb lo hi (d 3) (d 4)
            \<and> finite_vec (randomOnTree (Fin h) (Fin rb) (Fin lo) (Fin hi) (d 3) (d 4)))
       \<and> randomOnTree (Fin 0) (Fin rb) (Fin lo) (Fin hi) (d 3) (d 4)
           = \<lparr> vx = NaN, vy = Fin 0, vz = NaN \<rparr>"
proof (intro conjI impI)
  have r: "0 \<le> d k" "d k \<le> 1" for k
    using assms by (simp_all add: less_imp_le)
  show "finite_vec (randomInSphere (Fin radius) (d 0) (d 1) (d 2))"
    using r by (rule sphere_finite)
  show "finite_vec (randomOnTree (Fin h) (Fin rb) (Fin lo) (Fin hi) (d 3) (d 4))"
    if "h \<noteq> 0 \<and> \<bar>h\<bar> \<le> 2 ^ 300 \<and> \<bar>rb\<bar> \<le> 2 ^ 300
            \<and> \<bar>lo\<bar> \<le> 2 ^ 300 \<and> lo \<le> 1 \<and> \<bar>hi\<bar> \<le> 2 ^ 300 \<and> hi \<le> 1"
    using that r by (intro tree_finite) simp_all
  show "randomOnTree_in_range h rb lo hi (d 3) (d 4)"
    if "h \<noteq> 0 \<and> \<bar>h\<bar> \<le> 2 ^ 300 \<and> \<bar>rb\<bar> \<le> 2 ^ 300
            \<and> \<bar>lo\<bar> \<le> 2 ^ 300 \<and> lo \<le> 1 \<and> \<bar>hi\<bar> \<le> 2 ^ 300 \<and> hi \<le> 1"
    using that assms by (intro tree_in_range) simp_all
  show "randomOnTree (Fin 0) (Fin rb) (Fin lo) (Fin hi) (d 3) (d 4)
      = \<lparr> vx = NaN, vy = Fin 0, vz = NaN \<rparr>"
    by (rule tree_height_0)
qed

theorem generators_finite_witness:
  "finite_vec (randomInSphere (Fin (- 1)) (1 / 2) (1 / 2) (1 / 2))
   \<and> randomOnTree_in_range (- 12) (- 1) 0 1 (1 / 2) (1 / 2)
   \<and> finite_vec (randomOnTree (Fin (- 12)) (Fin (- 1)) (Fin 0) (Fin 1) (1 / 2) (1 / 2))"
proof -
  have d: "\<forall>k::nat. (0::real) \<le> 1 / 2 \<and> (1::real) / 2 < 1" by simp
  have b: "(1::real) \<le> 2 ^ 300" "(12::real) \<le> 2 ^ 300"
  proof -
    show "(1::real) \<le> 2 ^ 300" by (rule one_le_power) simp
    have "(12::real) \<le> 2 ^ 4" by simp
    also have "\<dots> \<le> 2 ^ 300" by (rule power_increasing) simp_all
    finally show "(12::real) \<le> 2 ^ 300" .
  qed
  have c: "(- 12 :: real) \<noteq> 0 \<and> \<bar>- 12 :: real\<bar> \<le> 2 ^ 300 \<and> \<bar>- 1 :: real\<bar> \<le> 2 ^ 300
            \<and> \<bar>0 :: real\<bar> \<le> 2 ^ 300 \<and> (0::real) \<le> 1 \<and> \<bar>1 :: real\<bar> \<le> 2 ^ 300 \<and> (1::real) \<le> 1"
    using b by simp
  show ?thesis
    using generators_finite [OF d, of "- 1" "- 12" "- 1" 0 1] c
    by blast
qed

text \<open>The formation point at height 0, for the tree's radius and the default band.\<close>

theorem zero_height_counterexample:
  "randomOnTree (Fin 0) (Fin 4.5) (Fin 0) (Fin 1) (1 / 2) (1 / 4)
     = \<lparr> vx = NaN, vy = Fin 0, vz = NaN \<rparr>"
  by (simp add: randomOnTree_def Let_def minus_jsnum_def Math_PI_def)

text \<open>
  Claim C7. With the band ratios 0 and 1 and a draw in \<open>[0, 1)\<close>, the \<open>y\<close> coordinate of a
  formation point lies within half the height of 0: in \<open>[-height/2, height/2]\<close> for a
  height that is not negative. With height 12 and the band ratios 0 and 0.4, \<open>y\<close> is at most
  -1.2, whatever the base radius.
\<close>

theorem tree_y_band:
  assumes "0 \<le> u" and "u < 1"
  shows "(\<exists>y. vy (randomOnTree (Fin h) radiusBase (Fin 0) (Fin 1) u u2) = Fin y
             \<and> \<bar>y\<bar> \<le> \<bar>h\<bar> / 2 \<and> (0 \<le> h \<longrightarrow> - h / 2 \<le> y \<and> y \<le> h / 2))
       \<and> (\<exists>y. vy (randomOnTree (Fin 12) radiusBase (Fin 0) (Fin 0.4) u u2) = Fin y
             \<and> y \<le> - 1.2)"
proof (intro conjI)
  have y1: "vy (randomOnTree (Fin h) radiusBase (Fin 0) (Fin 1) u u2) = Fin (u * h - h / 2)"
    by (simp add: tree_y)
  have a: "\<bar>u * h - h / 2\<bar> \<le> \<bar>h\<bar> / 2" using assms by (rule half_band)
  have b: "0 \<le> h \<longrightarrow> - h / 2 \<le> u * h - h / 2 \<and> u * h - h / 2 \<le> h / 2"
  proof
    assume h: "0 \<le> h"
    have "0 \<le> u * h" using assms(1) h by (rule mult_nonneg_nonneg)
    moreover have "u * h \<le> 1 * h" using assms(2) h by (intro mult_right_mono) simp_all
    ultimately show "- h / 2 \<le> u * h - h / 2 \<and> u * h - h / 2 \<le> h / 2"
      by (simp add: mult.commute)
  qed
  from y1 a b
  show "\<exists>y. vy (randomOnTree (Fin h) radiusBase (Fin 0) (Fin 1) u u2) = Fin y
          \<and> \<bar>y\<bar> \<le> \<bar>h\<bar> / 2 \<and> (0 \<le> h \<longrightarrow> - h / 2 \<le> y \<and> y \<le> h / 2)"
    by blast
  have y2: "vy (randomOnTree (Fin 12) radiusBase (Fin 0) (Fin 0.4) u u2) = Fin (u * 4.8 - 6)"
    by (simp add: tree_y)
  have c: "u * 4.8 - 6 \<le> - (1.2::real)" using assms by simp
  from y2 c
  show "\<exists>y. vy (randomOnTree (Fin 12) radiusBase (Fin 0) (Fin 0.4) u u2) = Fin y \<and> y \<le> - 1.2"
    by blast
qed

theorem tree_y_band_witness:
  "(\<exists>y. vy (randomOnTree (Fin 12) (Fin 4.5) (Fin 0) (Fin 1) (1 / 2) (1 / 4)) = Fin y
        \<and> \<bar>y\<bar> \<le> \<bar>12\<bar> / 2 \<and> (- 12 / 2 \<le> y \<and> y \<le> 12 / 2))
   \<and> (\<exists>y. vy (randomOnTree (Fin 12) (Fin 4.5) (Fin 0) (Fin 0.4) (1 / 2) (1 / 4)) = Fin y
        \<and> y \<le> - 1.2)"
proof -
  have u: "(0::real) \<le> 1 / 2" "(1::real) / 2 < 1" by simp_all
  have h: "(0::real) \<le> 12" by simp
  show ?thesis
    using tree_y_band [OF u, of 12 "Fin 4.5" "1 / 4"] h by blast
qed

text \<open>
  Claim C8. For a radius that is not negative and draws in \<open>[0, 1)\<close>, the scatter point has
  finite coordinates and its Euclidean norm is at most the radius.
\<close>

theorem sphere_within_radius:
  assumes "0 \<le> R" and "0 \<le> v" and "v < 1" and "0 \<le> w" and "w < 1"
  shows "\<exists>a b c. randomInSphere (Fin R) u v w = \<lparr> vx = Fin a, vy = Fin b, vz = Fin c \<rparr>
           \<and> sqrt (a * a + b * b + c * c) \<le> R"
proof -
  let ?r = "root 3 w * R"
  have w0: "0 \<le> root 3 w" using assms(4) by simp
  have w1: "root 3 w \<le> 1" using real_root_le_iff[of 3 w 1] assms(5) by simp
  have r0: "0 \<le> ?r" using assms(1) w0 by simp
  have r1: "?r \<le> R" using assms(1) w0 w1 by (simp add: mult_left_le_one_le)
  have le: "sqrt (?r * ?r) \<le> R" using r0 r1 by simp
  have val: "randomInSphere (Fin R) u v w =
     \<lparr> vx = Fin (?r * sin (arccos (2 * v - 1)) * cos (2 * pi * u)),
       vy = Fin (?r * sin (arccos (2 * v - 1)) * sin (2 * pi * u)),
       vz = Fin (?r * cos (arccos (2 * v - 1))) \<rparr>"
    using assms(2,3) by (intro sphere_val) simp_all
  show ?thesis
    by (intro exI conjI, rule val) (simp only: sphere_norm le)
qed

theorem sphere_within_radius_witness:
  "\<exists>a b c. randomInSphere (Fin 15) (1 / 4) (1 / 2) (1 / 8)
              = \<lparr> vx = Fin a, vy = Fin b, vz = Fin c \<rparr>
         \<and> sqrt (a * a + b * b + c * c) \<le> 15"
proof -
  have h: "(0::real) \<le> 15" "(0::real) \<le> 1 / 2" "(1::real) / 2 < 1"
    "(0::real) \<le> 1 / 8" "(1::real) / 8 < 1" by simp_all
  show ?thesis by (rule sphere_within_radius[OF h])
qed

section \<open>Generation of the particle pool\<close>

lemma pool_step_lengths:
  "length (pool_positions (pool_step h rb rnd i pool)) = length (pool_positions pool)"
  "length (pool_scatterPos (pool_step h rb rnd i pool)) = length (pool_scatterPos pool)"
  "length (pool_treePos (pool_step h rb rnd i pool)) = length (pool_treePos pool)"
  "length (pool_randoms (pool_step h rb rnd i pool)) = length (pool_randoms pool)"
  "length (pool_sizes (pool_step h rb rnd i pool)) = length (pool_sizes pool)"
  "length (pool_colorTypes (pool_step h rb rnd i pool)) = length (pool_colorTypes pool)"
  by (simp_all add: pool_step_def Let_def)

lemma pool_fold_lengths:
  "length (pool_positions (fold (pool_step h rb rnd) is pool)) = length (pool_positions pool) \<and>
   length (pool_scatterPos (fold (pool_step h rb rnd) is pool)) = length (pool_scatterPos pool) \<and>
   length (pool_treePos (fold (pool_step h rb rnd) is pool)) = length (pool_treePos pool) \<and>
   length (pool_randoms (fold (pool_step h rb rnd) is pool)) = length (pool_randoms pool) \<and>
   length (pool_sizes (fold (pool_step h rb rnd) is pool)) = length (pool_sizes pool) \<and>
   length (pool_colorTypes (fold (pool_step h rb rnd) is pool)) = length (pool_colorTypes pool)"
  by (induction "is" arbitrary: pool) (simp_all add: pool_step_lengths)

text \<open>The tree position the loop stores for particle \<open>i\<close>.\<close>

lemma pool_step_treePos:
  "pool_treePos (pool_step h rb rnd i pool) =
     (pool_treePos pool)
       [i * 3 := to_float32 (vx (randomOnTree h rb (Fin 0) (Fin 1) (rnd (8 * i)) (rnd (8 * i + 1)))),
        i * 3 + 1 := to_float32 (vy (randomOnTree h rb (Fin 0) (Fin 1) (rnd (8 * i)) (rnd (8 * i + 1)))),
        i * 3 + 2 := to_float32 (vz (randomOnTree h rb (Fin 0) (Fin 1) (rnd (8 * i)) (rnd (8 * i + 1))))]"
  by (simp add: pool_step_def Let_def)

lemma pool_fold_treePos:
  assumes "n * 3 \<le> length (pool_treePos pool)" and "i < n"
  shows "pool_treePos (fold (pool_step h rb rnd) [0 ..< n] pool) ! (i * 3)
           = to_float32 (vx (randomOnTree h rb (Fin 0) (Fin 1) (rnd (8 * i)) (rnd (8 * i + 1))))
       \<and> pool_treePos (fold (pool_step h rb rnd) [0 ..< n] pool) ! (i * 3 + 1)
           = to_float32 (vy (randomOnTree h rb (Fin 0) (Fin 1) (rnd (8 * i)) (rnd (8 * i + 1))))
       \<and> pool_treePos (fold (pool_step h rb rnd) [0 ..< n] pool) ! (i * 3 + 2)
           = to_float32 (vz (randomOnTree h rb (Fin 0) (Fin 1) (rnd (8 * i)) (rnd (8 * i + 1))))"
  using assms
proof (induction n)
  case 0
  then show ?case by simp
next
  case (Suc n)
  let ?q = "fold (pool_step h rb rnd) [0 ..< n] pool"
  have len: "length (pool_treePos ?q) = length (pool_treePos pool)"
    using pool_fold_lengths[of h rb rnd "[0 ..< n]" pool] by simp
  have run: "fold (pool_step h rb rnd) [0 ..< Suc n] pool = pool_step h rb rnd n ?q"
    by simp
  show ?case
  proof (cases "i = n")
    case True
    have "n * 3 + 2 < length (pool_treePos ?q)" using Suc.prems(1) len by simp
    then show ?thesis
      unfolding run pool_step_treePos True by simp
  next
    case False
    with Suc.prems(2) have i: "i < n" by simp
    have "n * 3 \<le> length (pool_treePos pool)" using Suc.prems(1) by simp
    from Suc.IH[OF this i] i show ?thesis
      unfolding run pool_step_treePos by simp
  qed
qed

lemma generate_pool_fails:
  "\<not> pool_allocates can_allocate count \<Longrightarrow>
     generate_pool can_allocate count h rb rnd = Inl RangeError"
  by (auto simp add: generate_pool_def new_Float32Array_def pool_allocates_def
        split: sum.splits if_splits)

lemma generate_pool_ok:
  assumes "pool_allocates can_allocate count"
  shows "generate_pool can_allocate count h rb rnd =
     Inr (fold (pool_step h rb rnd) [0 ..< nat count]
            \<lparr> pool_positions = replicate (nat (count * 3)) (Fin 0),
              pool_scatterPos = replicate (nat (count * 3)) (Fin 0),
              pool_treePos = replicate (nat (count * 3)) (Fin 0),
              pool_randoms = replicate (nat count) (Fin 0),
              pool_sizes = replicate (nat count) (Fin 0),
              pool_colorTypes = replicate (nat count) (Fin 0) \<rparr>)"
proof -
  from assms have c: "0 \<le> count" "count * 3 \<le> 2 ^ 53 - 1"
    and a: "can_allocate 0 (nat (count * 3))" "can_allocate 1 (nat (count * 3))"
      "can_allocate 2 (nat (count * 3))" "can_allocate 3 (nat count)"
      "can_allocate 4 (nat count)" "can_allocate 5 (nat count)"
    by (simp_all add: pool_allocates_def)
  from c have c': "\<not> count < 0" "\<not> count * 3 < 0" "\<not> 2 ^ 53 - 1 < count * 3"
    "\<not> 2 ^ 53 - 1 < count" by simp_all
  show ?thesis
    unfolding generate_pool_def new_Float32Array_def using c' a by simp
qed

text \<open>
  Claim C6, as the code has it. The generation of the pool checks nothing of its
  configuration. Whenever its six arrays can be allocated (a count that is not negative,
  a length within the bound of \<open>ToIndex\<close>, an engine with the memory), it returns a pool of
  that many particles and no error, for any tree height and base radius, zero and
  negative ones included; at height 0 every tree position it stores has \<open>y = 0\<close> and NaN
  for \<open>x\<close> and \<open>z\<close>. Otherwise it fails with the \<open>RangeError\<close> of the array allocation.
\<close>

theorem generate_pool_unvalidated:
  "(pool_allocates can_allocate count \<longrightarrow>
      (\<exists>pool. generate_pool can_allocate count height radiusBase rnd = Inr pool
         \<and> length (pool_positions pool) = 3 * nat count
         \<and> length (pool_scatterPos pool) = 3 * nat count
         \<and> length (pool_treePos pool) = 3 * nat count
         \<and> length (pool_randoms pool) = nat count
         \<and> length (pool_sizes pool) = nat count
         \<and> length (pool_colorTypes pool) = nat count
         \<and> (height = Fin 0 \<and> isFinite radiusBase \<longrightarrow>
              (\<forall>i < nat count. pool_treePos pool ! (i * 3) = NaN
                   \<and> pool_treePos pool ! (i * 3 + 1) = Fin 0
                   \<and> pool_treePos pool ! (i * 3 + 2) = NaN))))
   \<and> (\<not> pool_allocates can_allocate count \<longrightarrow>
        generate_pool can_allocate count height radiusBase rnd = Inl RangeError)"
proof (intro conjI impI)
  assume ok: "pool_allocates can_allocate count"
  define init where "init =
     \<lparr> pool_positions = replicate (nat (count * 3)) (Fin 0),
       pool_scatterPos = replicate (nat (count * 3)) (Fin 0),
       pool_treePos = replicate (nat (count * 3)) (Fin 0),
       pool_randoms = replicate (nat count) (Fin 0),
       pool_sizes = replicate (nat count) (Fin 0),
       pool_colorTypes = replicate (nat count) (Fin 0) \<rparr>"
  define pool where "pool = fold (pool_step height radiusBase rnd) [0 ..< nat count] init"
  from ok have c: "0 \<le> count" by (simp add: pool_allocates_def)
  then have n3: "nat (count * 3) = nat count * 3" by (simp add: nat_mult_distrib)
  have gen: "generate_pool can_allocate count height radiusBase rnd = Inr pool"
    unfolding pool_def init_def by (rule generate_pool_ok[OF ok])
  have len: "length (pool_positions pool) = 3 * nat count"
      "length (pool_scatterPos pool) = 3 * nat count"
      "length (pool_treePos pool) = 3 * nat count"
      "length (pool_randoms pool) = nat count"
      "length (pool_sizes pool) = nat count"
      "length (pool_colorTypes pool) = nat count"
    unfolding pool_def
    using pool_fold_lengths[of height radiusBase rnd "[0 ..< nat count]" init]
    by (simp_all add: init_def n3)
  have nan: "pool_treePos pool ! (i * 3) = NaN \<and> pool_treePos pool ! (i * 3 + 1) = Fin 0
      \<and> pool_treePos pool ! (i * 3 + 2) = NaN"
    if z: "height = Fin 0 \<and> isFinite radiusBase" and i: "i < nat count" for i
  proof -
    from z obtain rb where rb: "radiusBase = Fin rb" unfolding isFinite_ex by blast
    have l: "nat count * 3 \<le> length (pool_treePos init)" by (simp add: init_def n3)
    have t: "randomOnTree height radiusBase (Fin 0) (Fin 1) (rnd (8 * i)) (rnd (8 * i + 1))
        = \<lparr> vx = NaN, vy = Fin 0, vz = NaN \<rparr>"
      using z unfolding rb by (simp add: tree_height_0)
    from pool_fold_treePos[OF l i, of height radiusBase rnd]
    show ?thesis unfolding pool_def t by simp
  qed
  from gen len nan
  show "\<exists>pool. generate_pool can_allocate count height radiusBase rnd = Inr pool
         \<and> length (pool_positions pool) = 3 * nat count
         \<and> length (pool_scatterPos pool) = 3 * nat count
         \<and> length (pool_treePos pool) = 3 * nat count
         \<and> length (pool_randoms pool) = nat count
         \<and> length (pool_sizes pool) = nat count
         \<and> length (pool_colorTypes pool) = nat count
         \<and> (height = Fin 0 \<and> isFinite radiusBase \<longrightarrow>
              (\<forall>i < nat count. pool_treePos pool ! (i * 3) = NaN
                   \<and> pool_treePos pool ! (i * 3 + 1) = Fin 0
                   \<and> pool_treePos pool ! (i * 3 + 2) = NaN))"
    by blast
next
  assume "\<not> pool_allocates can_allocate count"
  then show "generate_pool can_allocate count height radiusBase rnd = Inl RangeError"
    by (rule generate_pool_fails)
qed

theorem generate_pool_unvalidated_witness:
  "(\<exists>pool. generate_pool (\<lambda>k n. True) 2 (Fin 0) (Fin (- 1)) (\<lambda>k. 1 / 2) = Inr pool
         \<and> length (pool_positions pool) = 3 * nat 2
         \<and> length (pool_scatterPos pool) = 3 * nat 2
         \<and> length (pool_treePos pool) = 3 * nat 2
         \<and> length (pool_randoms pool) = nat 2
         \<and> length (pool_sizes pool) = nat 2
         \<and> length (pool_colorTypes pool) = nat 2
         \<and> (\<forall>i < nat 2. pool_treePos pool ! (i * 3) = NaN
                   \<and> pool_treePos pool ! (i * 3 + 1) = Fin 0
                   \<and> pool_treePos pool ! (i * 3 + 2) = NaN))
   \<and> generate_pool (\<lambda>k n. True) (- 1) (Fin 12) (Fin 4.5) (\<lambda>k. 1 / 2) = Inl RangeError
   \<and> generate_pool (\<lambda>k n. True) (10 ^ 16) (Fin 12) (Fin 4.5) (\<lambda>k. 1 / 2) = Inl RangeError
   \<and> generate_pool (\<lambda>k n. k < 5) 2 (Fin 12) (Fin 4.5) (\<lambda>k. 1 / 2) = Inl RangeError"
proof -
  have a: "pool_allocates (\<lambda>k n. True) 2" by (simp add: pool_allocates_def)
  have z: "Fin 0 = Fin 0 \<and> isFinite (Fin (- 1))" by simp
  have b: "\<not> pool_allocates (\<lambda>k n. True) (- 1)" by (simp add: pool_allocates_def)
  have c: "\<not> pool_allocates (\<lambda>k n. True) (10 ^ 16)" by (simp add: pool_allocates_def)
  have d: "\<not> pool_allocates (\<lambda>k n. k < 5) 2" by (simp add: pool_allocates_def)
  from generate_pool_unvalidated[of "\<lambda>k n. True" 2 "Fin 0" "Fin (- 1)" "\<lambda>k. 1 / 2"] a z
  have 1: "\<exists>pool. generate_pool (\<lambda>k n. True) 2 (Fin 0) (Fin (- 1)) (\<lambda>k. 1 / 2) = Inr pool
         \<and> length (pool_positions pool) = 3 * nat 2
         \<and> length (pool_scatterPos pool) = 3 * nat 2
         \<and> length (pool_treePos pool) = 3 * nat 2
         \<and> length (pool_randoms pool) = nat 2
         \<and> length (pool_sizes pool) = nat 2
         \<and> length (pool_colorTypes pool) = nat 2
         \<and> (\<forall>i < nat 2. pool_treePos pool ! (i * 3) = NaN
                   \<and> pool_treePos pool ! (i * 3 + 1) = Fin 0
                   \<and> pool_treePos pool ! (i * 3 + 2) = NaN)" by blast
  from generate_pool_unvalidated[of "\<lambda>k n. True" "- 1" "Fin 12" "Fin 4.5" "\<lambda>k. 1 / 2"] b
  have 2: "generate_pool (\<lambda>k n. True) (- 1) (Fin 12) (Fin 4.5) (\<lambda>k. 1 / 2) = Inl RangeError"
    by blast
  from generate_pool_unvalidated[of "\<lambda>k n. True" "10 ^ 16" "Fin 12" "Fin 4.5" "\<lambda>k. 1 / 2"] c
  have 3: "generate_pool (\<lambda>k n. True) (10 ^ 16) (Fin 12) (Fin 4.5) (\<lambda>k. 1 / 2) = Inl RangeError"
    by blast
  from generate_pool_unvalidated[of "\<lambda>k n. k < 5" 2 "Fin 12" "Fin 4.5" "\<lambda>k. 1 / 2"] d
  have 4: "generate_pool (\<lambda>k n. k < 5) 2 (Fin 12) (Fin 4.5) (\<lambda>k. 1 / 2) = Inl RangeError"
    by blast
  from 1 2 3 4 show ?thesis by blast
qed

text \<open>
  With one particle, a tree height of 0 and an engine that allocates every array, the
  generation returns a pool, not an error, and the tree position it holds has NaN for \<open>x\<close>
  and \<open>z\<close>.
\<close>

theorem zero_height_pool_counterexample:
  "\<not> isl (generate_pool (\<lambda>k n. True) 1 (Fin 0) TREE_RADIUS (\<lambda>k. 1 / 2))
   \<and> pool_treePos (projr (generate_pool (\<lambda>k n. True) 1 (Fin 0) TREE_RADIUS (\<lambda>k. 1 / 2)))
       = [NaN, Fin 0, NaN]"
  by (simp add: generate_pool_def new_Float32Array_def pool_step_def tree_height_0
        TREE_RADIUS_def Let_def numeral_3_eq_3)

section \<open>The ornament animation\<close>

lemma speed_ok_ex: "speed_ok a \<longleftrightarrow> (\<exists>s. a = Fin s \<and> 0.02 \<le> s \<and> s < 0.07)"
  by (cases a) simp_all

lemma make_box_inv:
  assumes "\<forall>k. 0 \<le> rnd k \<and> rnd k < 1"
  shows "ornament_inv (make_box rnd)"
proof -
  have r: "0 \<le> rnd k" "rnd k < 1" "rnd k \<le> 1" for k using assms by (simp_all add: less_imp_le)
  have "finite_vec (randomOnTree (Fin (23 / 2)) (Fin (37 / 10)) (Fin 0) (Fin 1) (rnd 0) (rnd 1))"
    by (rule tree_finite) (simp_all add: r)
  moreover have "finite_vec (randomInSphere (Fin 12) (rnd 2) (rnd 3) (rnd 4))"
    by (rule sphere_finite) (simp_all add: r)
  moreover have "\<exists>s. Fin (rnd 7) * Fin 0.05 + Fin 0.02 = Fin s \<and> 0.02 \<le> s \<and> s < 0.07"
    using r(1)[of 7] r(2)[of 7] by simp
  moreover have "TREE_HEIGHT - Fin 0.5 = Fin (23 / 2)" "TREE_RADIUS - Fin 0.8 = Fin (37 / 10)"
    by (simp_all add: TREE_HEIGHT_def TREE_RADIUS_def minus_jsnum_def)
  ultimately show ?thesis
    unfolding ornament_inv_def speed_ok_ex make_box_def Let_def by (simp del: plus_jsnum.simps times_jsnum.simps)
qed

lemma make_blueSphere_inv:
  assumes "\<forall>k. 0 \<le> rnd k \<and> rnd k < 1"
  shows "ornament_inv (make_blueSphere rnd)"
proof -
  have r: "0 \<le> rnd k" "rnd k < 1" "rnd k \<le> 1" for k using assms by (simp_all add: less_imp_le)
  have "finite_vec (randomOnTree (Fin 12) (Fin 4) (Fin 0.0) (Fin 0.4) (rnd 0) (rnd 1))"
    by (rule tree_finite) (simp_all add: r)
  moreover have "finite_vec (randomInSphere (Fin 12) (rnd 2) (rnd 3) (rnd 4))"
    by (rule sphere_finite) (simp_all add: r)
  moreover have "\<exists>s. Fin (rnd 6) * Fin 0.05 + Fin 0.02 = Fin s \<and> 0.02 \<le> s \<and> s < 0.07"
    using r(1)[of 6] r(2)[of 6] by simp
  moreover have "TREE_HEIGHT = Fin 12" "TREE_RADIUS - Fin 0.5 = Fin 4"
    by (simp_all add: TREE_HEIGHT_def TREE_RADIUS_def minus_jsnum_def)
  ultimately show ?thesis
    unfolding ornament_inv_def speed_ok_ex make_blueSphere_def Let_def by (simp del: plus_jsnum.simps times_jsnum.simps)
qed

lemma Vector3_lerp_fin:
  "Vector3_lerp (fin_vec a) (fin_vec b) (Fin s) =
     fin_vec \<lparr> vx = (1 - s) * vx a + s * vx b, vy = (1 - s) * vy a + s * vy b,
               vz = (1 - s) * vz a + s * vz b \<rparr>"
  by (simp add: Vector3_lerp_def fin_vec_def minus_jsnum_def algebra_simps)

lemma ornament_update_fields:
  "speed (ornament_update b ob) = speed ob"
  "treePos (ornament_update b ob) = treePos ob"
  "scatterPos (ornament_update b ob) = scatterPos ob"
  by (simp_all add: ornament_update_def Let_def)

lemma OrnamentSystem_useFrame_nth:
  "i < length bs \<Longrightarrow>
     fst (OrnamentSystem_useFrame isTreeForm (bs, ss)) ! i = ornament_update isTreeForm (bs ! i)"
  "j < length ss \<Longrightarrow>
     snd (OrnamentSystem_useFrame isTreeForm (bs, ss)) ! j = ornament_update isTreeForm (ss ! j)"
  by (simp_all add: OrnamentSystem_useFrame_def)

lemma ornament_update_inv:
  assumes "ornament_inv ob"
  shows "ornament_inv (ornament_update b ob)"
proof -
  from assms obtain t sc c s where v: "treePos ob = fin_vec t" "scatterPos ob = fin_vec sc"
      "currentPos ob = fin_vec c" "speed ob = Fin s"
    unfolding ornament_inv_def speed_ok_ex finite_vec_ex by blast
  have "finite_vec (currentPos (ornament_update b ob))"
    unfolding finite_vec_ex by (auto simp: ornament_update_def Let_def v Vector3_lerp_fin)
  with assms show ?thesis by (simp add: ornament_inv_def speed_ok_ex ornament_update_fields)
qed

lemma ornament_frames_inv: "ornament_inv ob \<Longrightarrow> ornament_inv (ornament_frames fs ob)"
  by (induction fs arbitrary: ob) (simp_all add: ornament_update_inv)

lemma ornament_frames_speed: "speed (ornament_frames fs ob) = speed ob"
  by (induction fs arbitrary: ob) (simp_all add: ornament_update_fields)

lemma distance_fin:
  "Vector3_distanceTo (fin_vec a) (fin_vec b) =
     Fin (sqrt ((vx a - vx b) * (vx a - vx b) + (vy a - vy b) * (vy a - vy b)
              + (vz a - vz b) * (vz a - vz b)))"
  by (simp add: Vector3_distanceTo_def Math_sqrt_def fin_vec_def minus_jsnum_def Let_def
        not_less add_nonneg_nonneg)

lemma lerp_distance:
  fixes s :: real
  assumes "s \<le> 1"
  shows "sqrt ((((1 - s) * a1 + s * b1) - b1) * (((1 - s) * a1 + s * b1) - b1)
             + (((1 - s) * a2 + s * b2) - b2) * (((1 - s) * a2 + s * b2) - b2)
             + (((1 - s) * a3 + s * b3) - b3) * (((1 - s) * a3 + s * b3) - b3))
       = (1 - s) * sqrt ((a1 - b1) * (a1 - b1) + (a2 - b2) * (a2 - b2) + (a3 - b3) * (a3 - b3))"
proof -
  have "(((1 - s) * a1 + s * b1) - b1) * (((1 - s) * a1 + s * b1) - b1)
             + (((1 - s) * a2 + s * b2) - b2) * (((1 - s) * a2 + s * b2) - b2)
             + (((1 - s) * a3 + s * b3) - b3) * (((1 - s) * a3 + s * b3) - b3)
      = (1 - s)\<^sup>2 * ((a1 - b1) * (a1 - b1) + (a2 - b2) * (a2 - b2) + (a3 - b3) * (a3 - b3))"
    by (simp add: power2_eq_square algebra_simps)
  then show ?thesis using assms by (simp add: real_sqrt_mult)
qed

lemma ornament_step:
  assumes "ornament_inv ob"
  shows "\<exists>s cur tgt. speed ob = Fin s \<and> 0.02 \<le> s \<and> s \<le> 0.07
     \<and> currentPos ob = fin_vec cur
     \<and> (if isTreeForm then treePos ob else scatterPos ob) = fin_vec tgt
     \<and> ornament_update isTreeForm ob = ob \<lparr> currentPos :=
          fin_vec \<lparr> vx = (1 - s) * vx cur + s * vx tgt, vy = (1 - s) * vy cur + s * vy tgt,
                    vz = (1 - s) * vz cur + s * vz tgt \<rparr> \<rparr>
     \<and> isFinite (Vector3_distanceTo (currentPos ob) (fin_vec tgt))
     \<and> Vector3_distanceTo (currentPos (ornament_update isTreeForm ob)) (fin_vec tgt)
         = Fin (1 - s) * Vector3_distanceTo (currentPos ob) (fin_vec tgt)"
proof -
  from assms obtain t sc c s where v: "treePos ob = fin_vec t" "scatterPos ob = fin_vec sc"
      "currentPos ob = fin_vec c" "speed ob = Fin s" and s: "0.02 \<le> s" "s < 0.07"
    unfolding ornament_inv_def speed_ok_ex finite_vec_ex by blast
  define tgt where "tgt = (if isTreeForm then t else sc)"
  have tg: "(if isTreeForm then treePos ob else scatterPos ob) = fin_vec tgt"
    by (simp add: tgt_def v)
  have up: "ornament_update isTreeForm ob = ob \<lparr> currentPos :=
          fin_vec \<lparr> vx = (1 - s) * vx c + s * vx tgt, vy = (1 - s) * vy c + s * vy tgt,
                    vz = (1 - s) * vz c + s * vz tgt \<rparr> \<rparr>"
  proof -
    have "Vector3_lerp (currentPos ob) (fin_vec tgt) (speed ob)
        = fin_vec \<lparr> vx = (1 - s) * vx c + s * vx tgt, vy = (1 - s) * vy c + s * vy tgt,
                    vz = (1 - s) * vz c + s * vz tgt \<rparr>"
      unfolding v(3,4) by (rule Vector3_lerp_fin)
    then show ?thesis by (simp add: ornament_update_def Let_def tg)
  qed
  have s1: "s \<le> 1" and s2: "s \<le> 0.07" using s by simp_all
  define new where "new = \<lparr> vx = (1 - s) * vx c + s * vx tgt, vy = (1 - s) * vy c + s * vy tgt,
                    vz = (1 - s) * vz c + s * vz tgt \<rparr>"
  have cp: "currentPos (ornament_update isTreeForm ob) = fin_vec new"
    by (simp add: up new_def)
  have e: "sqrt ((vx new - vx tgt) * (vx new - vx tgt) + (vy new - vy tgt) * (vy new - vy tgt)
              + (vz new - vz tgt) * (vz new - vz tgt))
      = (1 - s) * sqrt ((vx c - vx tgt) * (vx c - vx tgt) + (vy c - vy tgt) * (vy c - vy tgt)
              + (vz c - vz tgt) * (vz c - vz tgt))"
    unfolding new_def Vector3.select_convs by (rule lerp_distance[OF s1])
  have d: "Vector3_distanceTo (currentPos (ornament_update isTreeForm ob)) (fin_vec tgt)
         = Fin (1 - s) * Vector3_distanceTo (currentPos ob) (fin_vec tgt)"
    unfolding cp v(3) distance_fin e by simp
  have f: "isFinite (Vector3_distanceTo (currentPos ob) (fin_vec tgt))"
    unfolding v distance_fin by simp
  show ?thesis using v(4) s(1) s2 v(3) tg up f d by blast
qed

lemma created_inv:
  assumes "\<forall>k. 0 \<le> rnd k \<and> rnd k < 1" and "ob \<in> set (boxes rnd) \<union> set (blueSpheres rnd)"
  shows "ornament_inv ob"
proof -
  have sh: "\<forall>k. 0 \<le> rnd (12 * i + k) \<and> rnd (12 * i + k) < 1" for i using assms(1) by simp
  from assms(2) consider i where "ob = make_box (\<lambda>k. rnd (12 * i + k))"
    | i where "ob = make_blueSphere (\<lambda>k. rnd (12 * i + k))"
    by (auto simp: boxes_def blueSpheres_def)
  then show ?thesis
  proof cases
    case 1
    then show ?thesis using make_box_inv[OF sh[of i]] by simp
  next
    case 2
    then show ?thesis using make_blueSphere_inv[OF sh[of i]] by simp
  qed
qed

text \<open>
  Claim C10. Take an ornament the system creates, a box or a blue sphere, from draws in
  \<open>[0, 1)\<close>, after any run of frames. Its speed is the finite number \<open>s\<close> fixed at its
  creation, with \<open>0.02 \<le> s \<le> 0.07\<close>. A frame changes its current position alone, from
  \<open>cur\<close> to \<open>(1 - s) * cur + s * tgt\<close>, a point of the segment from \<open>cur\<close> to the target
  \<open>tgt\<close>, and the distance to the target is multiplied by \<open>1 - s\<close>.
\<close>

theorem ornament_lerp:
  assumes "\<forall>k. 0 \<le> rnd k \<and> rnd k < 1"
    and "ob \<in> set (boxes rnd) \<union> set (blueSpheres rnd)"
  shows "\<exists>s cur tgt.
       speed ob = Fin s \<and> 0.02 \<le> s \<and> s \<le> 0.07
     \<and> speed (ornament_frames fs ob) = Fin s
     \<and> currentPos (ornament_frames fs ob) = fin_vec cur
     \<and> (if isTreeForm then treePos (ornament_frames fs ob)
         else scatterPos (ornament_frames fs ob)) = fin_vec tgt
     \<and> ornament_update isTreeForm (ornament_frames fs ob) = (ornament_frames fs ob) \<lparr> currentPos :=
          fin_vec \<lparr> vx = (1 - s) * vx cur + s * vx tgt, vy = (1 - s) * vy cur + s * vy tgt,
                    vz = (1 - s) * vz cur + s * vz tgt \<rparr> \<rparr>
     \<and> isFinite (Vector3_distanceTo (currentPos (ornament_frames fs ob)) (fin_vec tgt))
     \<and> Vector3_distanceTo (currentPos (ornament_update isTreeForm (ornament_frames fs ob)))
           (fin_vec tgt)
         = Fin (1 - s) * Vector3_distanceTo (currentPos (ornament_frames fs ob)) (fin_vec tgt)"
proof -
  have "ornament_inv (ornament_frames fs ob)"
    using assms by (intro ornament_frames_inv created_inv)
  from ornament_step[OF this, of isTreeForm]
  show ?thesis unfolding ornament_frames_speed by blast
qed

theorem ornament_lerp_witness:
  "\<exists>s cur tgt.
       speed (make_box (\<lambda>k. 1 / 2)) = Fin s \<and> 0.02 \<le> s \<and> s \<le> 0.07
     \<and> speed (ornament_frames [True, False] (make_box (\<lambda>k. 1 / 2))) = Fin s
     \<and> currentPos (ornament_frames [True, False] (make_box (\<lambda>k. 1 / 2))) = fin_vec cur
     \<and> (if True then treePos (ornament_frames [True, False] (make_box (\<lambda>k. 1 / 2)))
         else scatterPos (ornament_frames [True, False] (make_box (\<lambda>k. 1 / 2)))) = fin_vec tgt
     \<and> ornament_update True (ornament_frames [True, False] (make_box (\<lambda>k. 1 / 2)))
         = (ornament_frames [True, False] (make_box (\<lambda>k. 1 / 2))) \<lparr> currentPos :=
          fin_vec \<lparr> vx = (1 - s) * vx cur + s * vx tgt, vy = (1 - s) * vy cur + s * vy tgt,
                    vz = (1 - s) * vz cur + s * vz tgt \<rparr> \<rparr>
     \<and> isFinite (Vector3_distanceTo
           (currentPos (ornament_frames [True, False] (make_box (\<lambda>k. 1 / 2)))) (fin_vec tgt))
     \<and> Vector3_distanceTo
           (currentPos (ornament_update True (ornament_frames [True, False] (make_box (\<lambda>k. 1 / 2)))))
           (fin_vec tgt)
         = Fin (1 - s) * Vector3_distanceTo
             (currentPos (ornament_frames [True, False] (make_box (\<lambda>k. 1 / 2)))) (fin_vec tgt)"
proof -
  have d: "\<forall>k::nat. (0::real) \<le> 1 / 2 \<and> (1::real) / 2 < 1" by simp
  have "(0::nat) \<in> {0 ..< 1200}" by simp
  then have "make_box (\<lambda>k. 1 / 2) \<in> (\<lambda>i::nat. make_box (\<lambda>k. 1 / 2)) ` {0 ..< 1200}"
    by (rule rev_image_eqI) simp
  then have "make_box (\<lambda>k. 1 / 2) \<in> set (boxes (\<lambda>k. 1 / 2))"
    by (simp add: boxes_def BOX_COUNT_def)
  then have m: "make_box (\<lambda>k. 1 / 2) \<in> set (boxes (\<lambda>k. 1 / 2)) \<union> set (blueSpheres (\<lambda>k. 1 / 2))"
    by simp
  show ?thesis by (rule ornament_lerp[OF d m])
qed

end
